theory Spec2Isabelle
  imports Main "HOL-Library.Sublist"
begin

section \<open>Text: the string operations the scrapers use\<close>

text \<open>
  The scrapers of \<^verbatim>\<open>app.py\<close> work on the inner text of table cells. A text is a
  \<^typ>\<open>string\<close>; a \<^typ>\<open>char\<close> stands for the code point \<open>of_char c\<close>, so the texts
  covered are those over U+0000..U+00FF. On that range the predicates below are the ones
  of Python's \<^verbatim>\<open>str\<close> methods: \<^verbatim>\<open>isspace\<close> holds of the ASCII controls 9..13 and
  28..31, of the space, of U+0085 and of the non-breaking space U+00A0; \<^verbatim>\<open>isdigit\<close> holds
  of the decimal digits and of the superscript digits U+00B2, U+00B3 and U+00B9;
  \<^verbatim>\<open>lower\<close> moves A..Z and U+00C0..U+00DE (but not the multiplication sign U+00D7) up by 32.
\<close>

definition isspace_char :: "char \<Rightarrow> bool" where
  "isspace_char c = (let n = (of_char c :: nat) in
     (9 \<le> n \<and> n \<le> 13) \<or> (28 \<le> n \<and> n \<le> 32) \<or> n = 133 \<or> n = 160)"

definition isdigit_char :: "char \<Rightarrow> bool" where
  "isdigit_char c = (let n = (of_char c :: nat) in
     (48 \<le> n \<and> n \<le> 57) \<or> n = 178 \<or> n = 179 \<or> n = 185)"

definition lower_char :: "char \<Rightarrow> char" where
  "lower_char c = (let n = (of_char c :: nat) in
     if (65 \<le> n \<and> n \<le> 90) \<or> (192 \<le> n \<and> n \<le> 222 \<and> n \<noteq> 215)
     then char_of (n + 32) else c)"

definition nbsp :: char where
  "nbsp = CHR 0xA0"

text \<open>\<^verbatim>\<open>s.strip()\<close>: leading and trailing whitespace removed.\<close>

definition strip :: "string \<Rightarrow> string" where
  "strip s = rev (dropWhile isspace_char (rev (dropWhile isspace_char s)))"

text \<open>\<^verbatim>\<open>s.rstrip(":")\<close>: every trailing colon removed.\<close>

definition rstrip_colon :: "string \<Rightarrow> string" where
  "rstrip_colon s = rev (dropWhile (\<lambda>c. c = CHR '':'') (rev s))"

text \<open>\<^verbatim>\<open>s.replace("\xa0", "")\<close>: every non-breaking space removed.\<close>

definition remove_nbsp :: "string \<Rightarrow> string" where
  "remove_nbsp s = filter (\<lambda>c. c \<noteq> nbsp) s"

text \<open>\<^verbatim>\<open>s.lower()\<close>.\<close>

definition lower :: "string \<Rightarrow> string" where
  "lower s = map lower_char s"

text \<open>\<^verbatim>\<open>s.isdigit()\<close>: false on the empty string, else every character is a digit.\<close>

definition isdigit :: "string \<Rightarrow> bool" where
  "isdigit s = (s \<noteq> [] \<and> list_all isdigit_char s)"

text \<open>\<^verbatim>\<open>s.startswith(p)\<close> and \<^verbatim>\<open>p in s\<close>.\<close>

definition startswith :: "string \<Rightarrow> string \<Rightarrow> bool" where
  "startswith s p = (take (length p) s = p)"

fun contains :: "string \<Rightarrow> string \<Rightarrow> bool" where
  "contains [] p = (p = [])"
| "contains (c # cs) p = (startswith (c # cs) p \<or> contains cs p)"

section \<open>Rows, cells and records\<close>

text \<open>
  A row is what the page answers for one \<^verbatim>\<open>tr\<close>: its \<^verbatim>\<open>td\<close> and \<^verbatim>\<open>th\<close> cells in
  document order, each with its inner text. \<^verbatim>\<open>row.query_selector_all("td")\<close> keeps the
  \<^verbatim>\<open>td\<close> cells, the selector \<^verbatim>\<open>"td, th"\<close> keeps them all.
\<close>

datatype tag = TD | TH

type_synonym cell = "tag \<times> string"
type_synonym row = "cell list"

definition query_td :: "row \<Rightarrow> string list" where
  "query_td r = map snd (filter (\<lambda>c. fst c = TD) r)"

definition query_td_th :: "row \<Rightarrow> string list" where
  "query_td_th r = map snd r"

text \<open>
  A Python \<^verbatim>\<open>dict\<close> keeps its keys in insertion order, and storing under a key that is
  present replaces the value where the key stands. \<^verbatim>\<open>dict(pairs)\<close> stores the pairs
  from left to right.
\<close>

fun dict_set :: "('k \<times> 'v) list \<Rightarrow> 'k \<Rightarrow> 'v \<Rightarrow> ('k \<times> 'v) list" where
  "dict_set [] k v = [(k, v)]"
| "dict_set ((k', v') # d) k v =
     (if k' = k then (k, v) # d else (k', v') # dict_set d k v)"

definition py_dict :: "('k \<times> 'v) list \<Rightarrow> ('k \<times> 'v) list" where
  "py_dict kvs = foldl (\<lambda>d kv. dict_set d (fst kv) (snd kv)) [] kvs"

type_synonym report_record = "(string \<times> string) list"

section \<open>Attendance and library rows\<close>

definition attendance_headers :: "string list" where
  "attendance_headers = [''Sl.No.'', ''Subject'', ''Held'', ''Attend'', ''%'']"

text \<open>The row loop of \<^verbatim>\<open>fetch_attendance\<close>; \<open>data\<close> is the list built so far.\<close>

fun attendance_rows :: "row list \<Rightarrow> report_record list \<Rightarrow> report_record list" where
  "attendance_rows [] data = data"
| "attendance_rows (r # rows) data =
     (let cols = query_td r in
      if length cols = 5 then
        (let vals = map strip cols in
         if isdigit (vals ! 0)
         then attendance_rows rows (data @ [py_dict (zip attendance_headers vals)])
         else attendance_rows rows data)
      else attendance_rows rows data)"

definition library_headers :: "string list" where
  "library_headers = [''Sl.No'', ''Acc.No'', ''Title'', ''Author'', ''Issue Date'',
     ''Due Date'', ''Fine Days'', ''Fine Amount'']"

text \<open>The row loop of \<^verbatim>\<open>fetch_library_books\<close>.\<close>

fun library_rows :: "row list \<Rightarrow> report_record list \<Rightarrow> report_record list" where
  "library_rows [] data = data"
| "library_rows (r # rows) data =
     (let cols = query_td r in
      if length cols = 8 then
        (let vals = map strip cols in
         if isdigit (vals ! 0)
         then library_rows rows (data @ [py_dict (zip library_headers vals)])
         else library_rows rows data)
      else library_rows rows data)"

text \<open>
  The specification's reading of the check on the first cell: the text is a valid
  non-negative integer, a non-empty run of the decimal digits 0 to 9.
\<close>

definition spec_nonneg_integer_string :: "string \<Rightarrow> bool" where
  "spec_nonneg_integer_string s = (s \<noteq> [] \<and> list_all (\<lambda>c. List.member ''0123456789'' c) s)"

text \<open>The rows the two loops keep, and the record each one gives.\<close>

definition attendance_accepts :: "row \<Rightarrow> bool" where
  "attendance_accepts r = (length (query_td r) = 5 \<and> isdigit (strip (query_td r ! 0)))"

definition attendance_record :: "row \<Rightarrow> report_record" where
  "attendance_record r = py_dict (zip attendance_headers (map strip (query_td r)))"

definition library_accepts :: "row \<Rightarrow> bool" where
  "library_accepts r = (length (query_td r) = 8 \<and> isdigit (strip (query_td r ! 0)))"

definition library_record :: "row \<Rightarrow> report_record" where
  "library_record r = py_dict (zip library_headers (map strip (query_td r)))"

text \<open>A row made of \<^verbatim>\<open>td\<close> cells only, from their texts.\<close>

definition tds :: "string list \<Rightarrow> row" where
  "tds texts = map (\<lambda>t. (TD, t)) texts"

section \<open>Timetable and faculty allocation\<close>

text \<open>
  A candidate table of \<^verbatim>\<open>extract_timetable_and_faculty\<close> is what the page answers for
  it: \<open>hdr_cells\<close>, the inner texts of the elements matched by
  \<^verbatim>\<open>"tr:first-child td, tr:first-child th"\<close>, and \<open>trs\<close>, its rows.
\<close>

definition std_headers :: "string list" where
  "std_headers = [''Day'', ''Period 1'', ''Period 2'', ''Period 3'', ''Break'',
     ''Period 4'', ''Period 5'', ''Period 6'', ''Period 7'']"

record table =
  hdr_cells :: "string list"
  trs :: "row list"

text \<open>\<^verbatim>\<open>text.strip().replace("\\xa0", "")\<close>, the value taken from a cell.\<close>

definition clean_cell :: "string \<Rightarrow> string" where
  "clean_cell t = remove_nbsp (strip t)"

text \<open>The two header tests.\<close>

definition is_timetable :: "string list \<Rightarrow> bool" where
  "is_timetable headers =
     list_ex (\<lambda>h. startswith (lower h) ''day'' \<or> contains (lower h) ''period'') headers"

definition is_faculty :: "string list \<Rightarrow> bool" where
  "is_faculty headers =
     list_ex (\<lambda>h. contains (lower h) ''subject code'' \<or> contains (lower h) ''faculty'') headers"

text \<open>The two row loops, over \<^verbatim>\<open>rows[1:]\<close>, and the loop over the tables.\<close>

fun timetable_rows :: "row list \<Rightarrow> report_record list \<Rightarrow> report_record list" where
  "timetable_rows [] timetable = timetable"
| "timetable_rows (r # rows) timetable =
     (let values = map clean_cell (query_td r) in
      if length values \<noteq> length std_headers then timetable_rows rows timetable
      else timetable_rows rows (timetable @ [py_dict (zip std_headers values)]))"

fun faculty_rows :: "row list \<Rightarrow> report_record list \<Rightarrow> report_record list" where
  "faculty_rows [] faculty = faculty"
| "faculty_rows (r # rows) faculty =
     (let values = map clean_cell (query_td r) in
      if length values \<ge> 3 then
        faculty_rows rows (faculty @
          [[(''Subject Code'', values ! 0),
            (''Subject'', if length values > 1 then values ! 1 else ''''),
            (''Faculty Name'', if length values > 2 then values ! 2 else ''''),
            (''Initials'', if length values > 3 then values ! 3 else '''')]])
      else faculty_rows rows faculty)"

fun extract_tables ::
  "table list \<Rightarrow> report_record list \<times> report_record list
     \<Rightarrow> report_record list \<times> report_record list" where
  "extract_tables [] (timetable, faculty) = (timetable, faculty)"
| "extract_tables (t # tables) (timetable, faculty) =
     (let headers = map strip (hdr_cells t);
          timetable' = (if is_timetable headers
                        then timetable_rows (drop 1 (trs t)) timetable else timetable);
          faculty' = (if is_faculty headers
                      then faculty_rows (drop 1 (trs t)) faculty else faculty)
      in extract_tables tables (timetable', faculty'))"

text \<open>The Record a row gives in each loop, and what one table adds to each list.\<close>

definition timetable_record :: "row \<Rightarrow> report_record" where
  "timetable_record r = py_dict (zip std_headers (map clean_cell (query_td r)))"

definition faculty_record :: "row \<Rightarrow> report_record" where
  "faculty_record r =
     [(''Subject Code'', clean_cell (query_td r ! 0)),
      (''Subject'', clean_cell (query_td r ! 1)),
      (''Faculty Name'', clean_cell (query_td r ! 2)),
      (''Initials'', if length (query_td r) > 3 then clean_cell (query_td r ! 3) else '''')]"

definition timetable_of :: "table \<Rightarrow> report_record list" where
  "timetable_of t = (if is_timetable (map strip (hdr_cells t))
                     then timetable_rows (drop 1 (trs t)) [] else [])"

definition faculty_of :: "table \<Rightarrow> report_record list" where
  "faculty_of t = (if is_faculty (map strip (hdr_cells t))
                   then faculty_rows (drop 1 (trs t)) [] else [])"

text \<open>
  The specification's words: a text starts with \<open>p\<close>, or contains \<open>p\<close>,
  case-insensitively, when a prefix, or a segment, of it is \<open>p\<close> once lowered.
\<close>

definition spec_ci_startswith :: "string \<Rightarrow> string \<Rightarrow> bool" where
  "spec_ci_startswith h p = (\<exists>a b. h = a @ b \<and> lower a = p)"

definition spec_ci_contains :: "string \<Rightarrow> string \<Rightarrow> bool" where
  "spec_ci_contains h p = (\<exists>a m b. h = a @ m @ b \<and> lower m = p)"

section \<open>Academic calendar\<close>

text \<open>
  The rows of \<^verbatim>\<open>extract_academic_calendar\<close>: the container is the first table the
  selector matches, if any, given by its rows. The header texts are those of the
  \<^verbatim>\<open>td\<close> and \<^verbatim>\<open>th\<close> cells of the first row; of the other rows the \<^verbatim>\<open>td\<close> cells
  are read.
\<close>

fun calendar_rows ::
  "string list \<Rightarrow> row list \<Rightarrow> report_record list \<Rightarrow> report_record list" where
  "calendar_rows headers [] calendar = calendar"
| "calendar_rows headers (r # rows) calendar =
     (let values = map strip (query_td r) in
      if length values = length headers
      then calendar_rows headers rows (calendar @ [py_dict (zip headers values)])
      else calendar_rows headers rows calendar)"

definition calendar_records :: "row list option \<Rightarrow> report_record list" where
  "calendar_records container =
     (case container of
        None \<Rightarrow> []
      | Some rows \<Rightarrow>
          (if rows = [] then []
           else calendar_rows (map strip (query_td_th (rows ! 0))) (drop 1 rows) []))"

section \<open>Bio-data\<close>

text \<open>
  The personal-detail loop of \<^verbatim>\<open>fetch_bio_data\<close> over the rows of the first table;
  \<open>bio\<close> is the dictionary built so far.
\<close>

fun bio_rows :: "row list \<Rightarrow> (string \<times> string) list \<Rightarrow> (string \<times> string) list" where
  "bio_rows [] bio = bio"
| "bio_rows (r # rows) bio =
     (let cells = query_td r; cnt = length cells in
      if cnt = 2 then
        (let k = rstrip_colon (strip (cells ! 0));
             v = strip (cells ! 1)
         in if k \<noteq> [] \<and> v \<noteq> [] then bio_rows rows (dict_set bio k v)
            else bio_rows rows bio)
      else if cnt \<ge> 6 then
        (let k1 = rstrip_colon (strip (cells ! 0));
             v1 = strip (cells ! 2);
             k2 = rstrip_colon (strip (cells ! 3));
             v2 = strip (cells ! 5);
             bio1 = (if k1 \<noteq> [] \<and> v1 \<noteq> [] then dict_set bio k1 v1 else bio);
             bio2 = (if k2 \<noteq> [] \<and> v2 \<noteq> [] then dict_set bio1 k2 v2 else bio1)
         in bio_rows rows bio2)
      else bio_rows rows bio)"

text \<open>The education records: three fixed keys, each with eight fields, first all empty.\<close>

type_synonym education = "(string \<times> report_record) list"

definition edu_field_names :: "string list" where
  "edu_field_names = [''Board'', ''HallTicketNo'', ''YearOfPass'', ''Institute'',
     ''MaxMarks'', ''Obtained'', ''GradeLetter'', ''GradePoints'']"

definition edu_empty_record :: report_record where
  "edu_empty_record = map (\<lambda>f. (f, '''')) edu_field_names"

definition edu_default :: education where
  "edu_default = [(''School (SSC)'', edu_empty_record), (''Intermediate'', edu_empty_record),
     (''Diploma'', edu_empty_record)]"

text \<open>The key a qualification label selects, if any.\<close>

definition edu_key :: "string \<Rightarrow> string option" where
  "edu_key qual =
     (if qual = ''ssc'' \<or> qual = ''s.s.c'' then Some ''School (SSC)''
      else if qual = ''inter'' \<or> qual = ''intermediate'' then Some ''Intermediate''
      else if qual = ''diploma'' then Some ''Diploma''
      else None)"

text \<open>
  The eight values \<^verbatim>\<open>B, H, Y, I, Mx, Ob, GL, GP\<close> read from a row of at least seven
  cells; the last two are empty when the row has no eighth or ninth cell.
\<close>

definition edu_fields :: "string list \<Rightarrow> string list" where
  "edu_fields cells =
     [strip (cells ! 1), strip (cells ! 2), strip (cells ! 3), strip (cells ! 4),
      strip (cells ! 5), strip (cells ! 6),
      (if length cells > 7 then strip (cells ! 7) else ''''),
      (if length cells > 8 then strip (cells ! 8) else '''')]"

text \<open>The education loop, over the rows after the first.\<close>

fun edu_rows :: "row list \<Rightarrow> education \<Rightarrow> education" where
  "edu_rows [] edu = edu"
| "edu_rows (r # rows) edu =
     (let cells = query_td r in
      if length cells < 7 then edu_rows rows edu
      else
        (let qual = lower (strip (cells ! 0)) in
         if qual = [] then edu_rows rows edu
         else
           (case edu_key qual of
              None \<Rightarrow> edu_rows rows edu
            | Some key \<Rightarrow>
                (let fields = edu_fields cells in
                 if list_ex (\<lambda>s. s \<noteq> []) fields
                 then edu_rows rows (dict_set edu key (zip edu_field_names fields))
                 else edu_rows rows edu))))"

definition education_of :: "row list \<Rightarrow> education" where
  "education_of rows1 = edu_rows (drop 1 rows1) edu_default"

text \<open>Storing a label and a value when neither is empty, as the personal-detail loop does.\<close>

definition add_pair :: "string \<Rightarrow> string \<Rightarrow> (string \<times> string) list \<Rightarrow> (string \<times> string) list" where
  "add_pair label val bio =
     (if rstrip_colon (strip label) \<noteq> [] \<and> strip val \<noteq> []
      then dict_set bio (rstrip_colon (strip label)) (strip val) else bio)"

text \<open>The rows at which the education loop stores a record.\<close>

definition edu_overwrites :: "row \<Rightarrow> bool" where
  "edu_overwrites r =
     (7 \<le> length (query_td r)
      \<and> edu_key (lower (strip (query_td r ! 0))) \<noteq> None
      \<and> list_ex (\<lambda>s. s \<noteq> []) (edu_fields (query_td r)))"

section \<open>Sample inputs\<close>

text \<open>A table whose headers pass both tests, and one whose headers pass neither.\<close>

definition both_table :: table where
  "both_table = \<lparr>hdr_cells = ['' Day '', ''Faculty''],
     trs = [[(TH, ''Day''), (TH, ''Faculty'')],
            tds [''Mon'', ''M1'', ''P1'', ''C1'', '''', ''E1'', ''M2'', ''P2'', ''Lab''],
            tds [''CS101'', ''Programming'']]\<rparr>"

definition neither_table :: table where
  "neither_table = \<lparr>hdr_cells = [''Name'', ''Roll No''],
     trs = [tds [''Name'', ''Roll No''],
            tds [''Mon'', ''M1'', ''P1'', ''C1'', '''', ''E1'', ''M2'', ''P2'', ''Lab'']]\<rparr>"


definition bio_page :: "row list" where
  "bio_page = [tds [''Name :'', '' RAVI ''],
     tds [''Photo''],
     tds [''Roll No:'', '':'', ''21A1'', ''Branch ::'', '':'', ''CSE''],
     tds [''Father'', '':'', '' '', '':'', '':'', ''x''],
     tds [''Gender'', '':'', ''M'']]"

definition ssc_blank_row :: row where
  "ssc_blank_row = tds [''SSC'', [], [], [], [], [], [], [], []]"

definition inter_row :: row where
  "inter_row = tds ['' Inter '', ''BIE'', ''123'', ''2020'', ''ABC College'', ''1000'', ''950'']"

section \<open>Sessions, calls and files\<close>

text \<open>
  The awaited calls of the scrapers, in the order the code makes them. \<open>Read s\<close> stands
  for the queries that read the rows under the selector \<open>s\<close> (\<^verbatim>\<open>query_selector_all\<close>,
  \<^verbatim>\<open>count\<close>, \<^verbatim>\<open>inner_text\<close>); \<open>PlaywrightStart\<close> and \<open>PlaywrightStop\<close> are the entry
  and the exit of \<^verbatim>\<open>async with async_playwright()\<close>; \<open>WriteFile\<close> is the opening and
  writing of an output file.
\<close>

datatype call =
    PlaywrightStart | PlaywrightStop
  | Launch | NewPage
  | Goto string | Fill string string | Click string | Check string
  | WaitForTimeout nat | WaitForLoadState string | WaitForSelector string
  | Read string
  | BrowserClose
  | WriteFile string

text \<open>
  The portal as a scrape meets it: which calls raise, and what the pages hold.
\<close>

record portal =
  raises :: "call \<Rightarrow> bool"
  attendance_trs :: "row list"
  library_trs :: "row list"
  bio_table0 :: "row list"
  bio_table1 :: "row list"
  report_tables :: "table list"
  calendar_container :: "row list option"

text \<open>
  What a file holds: the data handed to \<^verbatim>\<open>json.dump\<close>, or the rows handed to the CSV
  writer, the header row first.
\<close>

datatype artifact =
    Json_records "report_record list"
  | Json_bio "(string \<times> string) list" education
  | Csv "string list list"

record world =
  calls :: "call list"
  files :: "(string \<times> artifact) list"

text \<open>
  An action runs in a world and gives either the call that raised or a value, and the
  world it leaves. An exception leaves the rest of the action undone.
\<close>

type_synonym 'a io = "world \<Rightarrow> (call + 'a) \<times> world"

definition return_io :: "'a \<Rightarrow> 'a io" where
  "return_io a w = (Inr a, w)"

definition bind_io :: "'a io \<Rightarrow> ('a \<Rightarrow> 'b io) \<Rightarrow> 'b io" where
  "bind_io m f w = (case m w of (Inl e, w') \<Rightarrow> (Inl e, w') | (Inr a, w') \<Rightarrow> f a w')"

definition call_io :: "portal \<Rightarrow> call \<Rightarrow> unit io" where
  "call_io env p w =
     (if raises env p then Inl p else Inr (), w\<lparr>calls := calls w @ [p]\<rparr>)"

fun do_calls :: "portal \<Rightarrow> call list \<Rightarrow> unit io" where
  "do_calls env [] w = (Inr (), w)"
| "do_calls env (p # ps) w =
     (case call_io env p w of
        (Inl e, w') \<Rightarrow> (Inl e, w')
      | (Inr u, w') \<Rightarrow> do_calls env ps w')"

text \<open>\<^verbatim>\<open>try: ... except Exception: pass\<close>.\<close>

definition try_pass :: "unit io \<Rightarrow> unit io" where
  "try_pass m w = (Inr (), snd (m w))"

definition write_file :: "portal \<Rightarrow> string \<Rightarrow> artifact \<Rightarrow> unit io" where
  "write_file env name content w =
     (if raises env (WriteFile name)
      then (Inl (WriteFile name), w\<lparr>calls := calls w @ [WriteFile name]\<rparr>)
      else (Inr (), w\<lparr>calls := calls w @ [WriteFile name],
                       files := dict_set (files w) name content\<rparr>))"

text \<open>
  \<^verbatim>\<open>async with async_playwright() as pw: body\<close>: the exit runs however the body ends.
\<close>

definition with_playwright :: "portal \<Rightarrow> 'a io \<Rightarrow> 'a io" where
  "with_playwright env body w =
     (case call_io env PlaywrightStart w of
        (Inl e, w1) \<Rightarrow> (Inl e, w1)
      | (Inr u, w1) \<Rightarrow>
          (case body w1 of
             (res, w2) \<Rightarrow>
               (case call_io env PlaywrightStop w2 of
                  (Inl e, w3) \<Rightarrow> (Inl e, w3)
                | (Inr u, w3) \<Rightarrow> (res, w3))))"

definition LOGIN_URL :: string where
  "LOGIN_URL = ''https://www.webprosindia.com/Gokaraju/StudentMaster.aspx''"

definition ATTENDANCE_URL :: string where
  "ATTENDANCE_URL = ''https://www.webprosindia.com/Gokaraju/Academics/StudentAttendance.aspx?scrid=3&showtype=SA''"

definition LIBRARY_URL :: string where
  "LIBRARY_URL = ''https://www.webprosindia.com/gokaraju/Library/studentsbooks.aspx?scrid=14''"

definition PROFILE_URL :: string where
  "PROFILE_URL = ''https://www.webprosindia.com/Gokaraju/Academics/StudentProfile.aspx?scrid=17''"

definition TIMETABLE_URL :: string where
  "TIMETABLE_URL = ''https://www.webprosindia.com/gokaraju/Academics/TimeTableReport.aspx?scrid=18''"

definition ACADEMIC_CALENDAR_URL :: string where
  "ACADEMIC_CALENDAR_URL = ''https://www.webprosindia.com/gokaraju/Academics/AcademicCalenderReport.aspx?scrid=1''"

text \<open>The selectors \<^verbatim>\<open>input[id="radTillNow"]\<close> and \<^verbatim>\<open>input[id="btnShow"]\<close>.\<close>

definition RAD_TILL_NOW :: string where
  "RAD_TILL_NOW = ''input[id='' @ [CHR 0x22] @ ''radTillNow'' @ [CHR 0x22] @ '']''"

definition BTN_SHOW :: string where
  "BTN_SHOW = ''input[id='' @ [CHR 0x22] @ ''btnShow'' @ [CHR 0x22] @ '']''"

definition login_and_get_page :: "portal \<Rightarrow> string \<Rightarrow> string \<Rightarrow> unit io" where
  "login_and_get_page env username password =
     do_calls env [Launch, NewPage, Goto LOGIN_URL, Fill ''#txtId2'' username,
       Fill ''#txtPwd2'' password, Click ''#imgBtn2'', WaitForTimeout 2000]"

text \<open>
  A row of \<^verbatim>\<open>csv.DictWriter\<close>: the values of a Record in the order of the field names,
  the empty string for a missing key. The Records written here have the field names as
  their keys, so the writer's check for extra keys never fails.
\<close>

definition csv_row :: "string list \<Rightarrow> report_record \<Rightarrow> string list" where
  "csv_row fieldnames d = map (\<lambda>h. case map_of d h of Some v \<Rightarrow> v | None \<Rightarrow> []) fieldnames"

definition extract_timetable_and_faculty ::
  "portal \<Rightarrow> (report_record list \<times> report_record list) io" where
  "extract_timetable_and_faculty env =
     bind_io (call_io env (Read ''#tblReport table'')) (\<lambda>_.
     (let (timetable, faculty) = extract_tables (report_tables env) ([], []) in
      bind_io (if timetable \<noteq> []
               then write_file env ''output/timetable.json'' (Json_records timetable)
               else return_io ()) (\<lambda>_.
      bind_io (if faculty \<noteq> []
               then write_file env ''output/faculty_allocation.json'' (Json_records faculty)
               else return_io ()) (\<lambda>_.
      return_io (timetable, faculty)))))"

definition extract_academic_calendar :: "portal \<Rightarrow> (report_record list) io" where
  "extract_academic_calendar env =
     bind_io (call_io env (Read ''#ctl00_CapPlaceHolder_divstudent table.reportTable'')) (\<lambda>_.
     (let calendar = calendar_records (calendar_container env) in
      bind_io (if calendar \<noteq> []
               then write_file env ''output/academic_calendar.json'' (Json_records calendar)
               else return_io ()) (\<lambda>_.
      return_io calendar)))"

definition fetch_attendance :: "portal \<Rightarrow> string \<Rightarrow> string \<Rightarrow> (report_record list) io" where
  "fetch_attendance env username password =
     with_playwright env
       (bind_io (login_and_get_page env username password) (\<lambda>_.
        bind_io (do_calls env [Goto ATTENDANCE_URL, WaitForLoadState ''networkidle'']) (\<lambda>_.
        bind_io (try_pass (do_calls env [Check RAD_TILL_NOW, Click BTN_SHOW])) (\<lambda>_.
        bind_io (do_calls env [WaitForTimeout 1500, Read ''table.cellBorder tr'']) (\<lambda>_.
        (let data = attendance_rows (attendance_trs env) [] in
         bind_io (call_io env BrowserClose) (\<lambda>_.
         bind_io (write_file env ''output/attendance_data.json'' (Json_records data)) (\<lambda>_.
         bind_io (write_file env ''output/attendance_data.csv''
                    (Csv (attendance_headers # map (csv_row attendance_headers) data))) (\<lambda>_.
         return_io data)))))))))"

definition fetch_library_books :: "portal \<Rightarrow> string \<Rightarrow> string \<Rightarrow> (report_record list) io" where
  "fetch_library_books env username password =
     with_playwright env
       (bind_io (login_and_get_page env username password) (\<lambda>_.
        bind_io (do_calls env [Goto LIBRARY_URL, WaitForTimeout 1500,
                               Read ''table#tblbooks tr'']) (\<lambda>_.
        (let data = library_rows (library_trs env) [] in
         bind_io (call_io env BrowserClose) (\<lambda>_.
         bind_io (write_file env ''output/library_books.json'' (Json_records data)) (\<lambda>_.
         bind_io (write_file env ''output/library_books.csv''
                    (Csv (library_headers # map (csv_row library_headers) data))) (\<lambda>_.
         return_io data)))))))"

definition bio_csv_rows :: "(string \<times> string) list \<Rightarrow> education \<Rightarrow> string list list" where
  "bio_csv_rows bio edu =
     [''Section'', ''Subsection'', ''Field'', ''Value'']
     # map (\<lambda>fv. [''BioData'', [], fst fv, snd fv]) bio
     @ concat (map (\<lambda>sd. map (\<lambda>fv. [''Education'', fst sd, fst fv, snd fv]) (snd sd)) edu)"

definition fetch_bio_data ::
  "portal \<Rightarrow> string \<Rightarrow> string \<Rightarrow> ((string \<times> string) list \<times> education) io" where
  "fetch_bio_data env username password =
     with_playwright env
       (bind_io (login_and_get_page env username password) (\<lambda>_.
        bind_io (do_calls env [Goto PROFILE_URL, WaitForTimeout 1000]) (\<lambda>_.
        bind_io (try_pass (do_calls env [Click ''text=BIO-DATA'',
                                         WaitForSelector ''#divProfile_BioData''])) (\<lambda>_.
        bind_io (do_calls env [Read ''#divProfile_BioData > table'']) (\<lambda>_.
        (let bio = bio_rows (bio_table0 env) [];
             edu = education_of (bio_table1 env) in
         bind_io (call_io env BrowserClose) (\<lambda>_.
         bind_io (write_file env ''output/bio_data.json'' (Json_bio bio edu)) (\<lambda>_.
         bind_io (write_file env ''output/bio_data.csv'' (Csv (bio_csv_rows bio edu))) (\<lambda>_.
         return_io (bio, edu))))))))))"

definition fetch_timetable_and_calendar ::
  "portal \<Rightarrow> string \<Rightarrow> string
     \<Rightarrow> (report_record list \<times> report_record list \<times> report_record list) io" where
  "fetch_timetable_and_calendar env username password =
     with_playwright env
       (bind_io (login_and_get_page env username password) (\<lambda>_.
        bind_io (do_calls env [Goto TIMETABLE_URL, WaitForSelector ''#tblReport'']) (\<lambda>_.
        bind_io (extract_timetable_and_faculty env) (\<lambda>tf.
        bind_io (do_calls env [Goto ACADEMIC_CALENDAR_URL, WaitForTimeout 1000]) (\<lambda>_.
        bind_io (extract_academic_calendar env) (\<lambda>calendar.
        bind_io (call_io env BrowserClose) (\<lambda>_.
        return_io (fst tf, snd tf, calendar))))))))"

text \<open>The world before a scrape, a portal with empty pages, and failures of one call.\<close>

definition world0 :: world where
  "world0 = \<lparr>calls = [], files = []\<rparr>"

definition never_raises :: "call \<Rightarrow> bool" where
  "never_raises p = False"

definition raises_at :: "call \<Rightarrow> call \<Rightarrow> bool" where
  "raises_at c p = (p = c)"

definition empty_portal :: "(call \<Rightarrow> bool) \<Rightarrow> portal" where
  "empty_portal r = \<lparr>raises = r, attendance_trs = [], library_trs = [], bio_table0 = [],
     bio_table1 = [], report_tables = [], calendar_container = None\<rparr>"

definition sample_portal :: portal where
  "sample_portal = \<lparr>raises = never_raises,
     attendance_trs = [tds [''1'', ''Maths'', ''40'', ''38'', ''95.0'']],
     library_trs = [], bio_table0 = [tds [''Name :'', '' RAVI '']], bio_table1 = [],
     report_tables = [both_table], calendar_container = None\<rparr>"

section \<open>Properties\<close>

subsection \<open>Attendance rows\<close>

lemma attendance_rows_acc:
  "attendance_rows rows data = data @ map attendance_record (filter attendance_accepts rows)"
proof (induction rows arbitrary: data)
  case Nil
  show ?case by simp
next
  case (Cons r rows)
  show ?case
  proof (cases "length (query_td r) = 5")
    case True
    then have nth0: "map strip (query_td r) ! 0 = strip (query_td r ! 0)"
      by simp
    show ?thesis
      using True Cons.IH
      by (simp add: Let_def nth0 attendance_accepts_def attendance_record_def del: nth_map)
  next
    case False
    then show ?thesis
      using Cons.IH by (simp add: Let_def attendance_accepts_def)
  qed
qed

lemma spec_integer_isdigit:
  "spec_nonneg_integer_string s \<Longrightarrow> isdigit s"
proof -
  have "isdigit_char c" if "List.member ''0123456789'' c" for c
    using that by (auto simp: isdigit_char_def)
  then have "list_all isdigit_char s" if "list_all (\<lambda>c. List.member ''0123456789'' c) s"
    using that by (induction s) auto
  then show "spec_nonneg_integer_string s \<Longrightarrow> isdigit s"
    by (simp add: spec_nonneg_integer_string_def isdigit_def)
qed

text \<open>
  C3, as the claim states it, fails: a row of five cells whose first cell is the
  superscript two (U+00B2) is kept, since Python's \<^verbatim>\<open>isdigit\<close> holds of it,
  and that text is no valid non-negative integer.
\<close>

theorem attendance_superscript_row_emitted:
  "attendance_rows [tds [[CHR 0xB2], ''Maths'', ''40'', ''38'', ''95.0'']] [] \<noteq> []
   \<and> \<not> (length (query_td (tds [[CHR 0xB2], ''Maths'', ''40'', ''38'', ''95.0''])) = 5
        \<and> spec_nonneg_integer_string
            (strip (query_td (tds [[CHR 0xB2], ''Maths'', ''40'', ''38'', ''95.0'']) ! 0)))"
  by code_simp

text \<open>
  C3, amended: the loop emits, in row order, one Record for each row that has exactly 5
  \<^verbatim>\<open>td\<close> cells and whose first cell's trimmed text passes \<^verbatim>\<open>isdigit\<close> (it is not
  empty and each character is a decimal digit or one of the superscript digits), and
  nothing for any other row. Every row whose first cell is a valid non-negative integer
  string in the specification's sense is among them. The row 1, Maths, 40, 38, 95.0
  gives the Record of the claim, and the row Total is dropped.
\<close>

theorem attendance_rows_emit_iff_isdigit:
  "attendance_rows rows [] = map attendance_record (filter attendance_accepts rows)
   \<and> (attendance_accepts r \<longleftrightarrow>
        length (query_td r) = 5 \<and> strip (query_td r ! 0) \<noteq> []
        \<and> list_all isdigit_char (strip (query_td r ! 0)))
   \<and> (length (query_td r) = 5 \<and> spec_nonneg_integer_string (strip (query_td r ! 0))
        \<longrightarrow> attendance_accepts r)
   \<and> attendance_rows [tds [''1'', ''Maths'', ''40'', ''38'', ''95.0'']] [] =
        [[(''Sl.No.'', ''1''), (''Subject'', ''Maths''), (''Held'', ''40''),
          (''Attend'', ''38''), (''%'', ''95.0'')]]
   \<and> attendance_rows [tds [''Total'', '''', '''', '''', '''']] [] = []"
proof -
  have a: "attendance_rows rows [] = map attendance_record (filter attendance_accepts rows)"
    by (simp add: attendance_rows_acc)
  have b: "attendance_accepts r \<longleftrightarrow>
        length (query_td r) = 5 \<and> strip (query_td r ! 0) \<noteq> []
        \<and> list_all isdigit_char (strip (query_td r ! 0))"
    by (simp add: attendance_accepts_def isdigit_def)
  have c: "length (query_td r) = 5 \<and> spec_nonneg_integer_string (strip (query_td r ! 0))
        \<longrightarrow> attendance_accepts r"
    by (simp add: attendance_accepts_def spec_integer_isdigit)
  have d: "attendance_rows [tds [''1'', ''Maths'', ''40'', ''38'', ''95.0'']] [] =
        [[(''Sl.No.'', ''1''), (''Subject'', ''Maths''), (''Held'', ''40''),
          (''Attend'', ''38''), (''%'', ''95.0'')]]"
    by code_simp
  have e: "attendance_rows [tds [''Total'', '''', '''', '''', '''']] [] = []"
    by code_simp
  from a b c d e show ?thesis by blast
qed

theorem attendance_rows_emit_iff_isdigit_witness:
  "attendance_rows [tds ['' 7 '', ''Physics'', ''10'', ''9'', ''90.0''], [(TH, ''Sl.No.'')]] [] =
     [[(''Sl.No.'', ''7''), (''Subject'', ''Physics''), (''Held'', ''10''),
       (''Attend'', ''9''), (''%'', ''90.0'')]]
   \<and> attendance_accepts (tds ['' 7 '', ''Physics'', ''10'', ''9'', ''90.0''])"
proof -
  have h: "length (query_td (tds ['' 7 '', ''Physics'', ''10'', ''9'', ''90.0''])) = 5
     \<and> spec_nonneg_integer_string
         (strip (query_td (tds ['' 7 '', ''Physics'', ''10'', ''9'', ''90.0'']) ! 0))"
    by code_simp
  have acc: "attendance_accepts (tds ['' 7 '', ''Physics'', ''10'', ''9'', ''90.0''])"
    using attendance_rows_emit_iff_isdigit
      [of "[]" "tds ['' 7 '', ''Physics'', ''10'', ''9'', ''90.0'']"] h
    by blast
  have run: "attendance_rows
      [tds ['' 7 '', ''Physics'', ''10'', ''9'', ''90.0''], [(TH, ''Sl.No.'')]] [] =
     [[(''Sl.No.'', ''7''), (''Subject'', ''Physics''), (''Held'', ''10''),
       (''Attend'', ''9''), (''%'', ''90.0'')]]"
    by code_simp
  from acc run show ?thesis by blast
qed

subsection \<open>Dictionaries and trimmed cells\<close>

lemma dict_set_fresh: "k \<notin> fst ` set d \<Longrightarrow> dict_set d k v = d @ [(k, v)]"
  by (induction d) auto

lemma py_dict_foldl_distinct:
  "distinct (map fst (d @ kvs)) \<Longrightarrow>
     foldl (\<lambda>d kv. dict_set d (fst kv) (snd kv)) d kvs = d @ kvs"
proof (induction kvs arbitrary: d)
  case Nil
  show ?case by simp
next
  case (Cons kv kvs)
  from Cons.prems have fresh: "fst kv \<notin> fst ` set d" by auto
  from Cons.prems have "distinct (map fst ((d @ [kv]) @ kvs))" by simp
  from Cons.IH [OF this] fresh show ?case
    by (simp add: dict_set_fresh)
qed

lemma py_dict_distinct: "distinct (map fst kvs) \<Longrightarrow> py_dict kvs = kvs"
  using py_dict_foldl_distinct [of "[]" kvs] by (simp add: py_dict_def)

lemma py_dict_zip:
  "distinct hs \<Longrightarrow> length vs = length hs \<Longrightarrow> py_dict (zip hs vs) = zip hs vs"
  by (rule py_dict_distinct) simp

lemma timetable_rows_acc:
  "timetable_rows rows tt =
     tt @ map timetable_record (filter (\<lambda>r. length (query_td r) = 9) rows)"
  by (induction rows arbitrary: tt)
     (simp_all add: Let_def std_headers_def timetable_record_def)

lemma faculty_rows_acc:
  "faculty_rows rows fac =
     fac @ map faculty_record (filter (\<lambda>r. length (query_td r) \<ge> 3) rows)"
proof (induction rows arbitrary: fac)
  case Nil
  show ?case by simp
next
  case (Cons r rows)
  show ?case
  proof (cases "length (query_td r) \<ge> 3")
    case True
    then have "0 < length (query_td r)" "1 < length (query_td r)" "2 < length (query_td r)"
      by linarith+
    then show ?thesis
      using True Cons.IH by (simp add: Let_def faculty_record_def)
  next
    case False
    then show ?thesis
      using Cons.IH by (simp add: Let_def)
  qed
qed

lemma extract_tables_acc:
  "extract_tables tables (tt, fac) =
     (tt @ concat (map timetable_of tables), fac @ concat (map faculty_of tables))"
proof (induction tables arbitrary: tt fac)
  case Nil
  show ?case by simp
next
  case (Cons t tables)
  have tt: "timetable_rows rows tt = tt @ timetable_rows rows []" for rows
    by (simp add: timetable_rows_acc [of rows tt] timetable_rows_acc [of rows "[]"])
  have fac: "faculty_rows rows fac = fac @ faculty_rows rows []" for rows
    by (simp add: faculty_rows_acc [of rows fac] faculty_rows_acc [of rows "[]"])
  show ?case
    by (simp add: Let_def Cons.IH timetable_of_def faculty_of_def tt [symmetric] fac [symmetric])
qed

lemma strip_ends:
  assumes "strip s \<noteq> []"
  shows "\<not> isspace_char (hd (strip s))" and "\<not> isspace_char (last (strip s))"
proof -
  let ?ys = "dropWhile isspace_char s"
  let ?zs = "dropWhile isspace_char (rev ?ys)"
  from assms have zs: "?zs \<noteq> []" by (simp add: strip_def)
  have ys: "?ys \<noteq> []"
  proof
    assume "?ys = []"
    then have "?zs = dropWhile isspace_char (rev [])" by (simp only:)
    then have "?zs = []" by (simp only: rev.simps dropWhile.simps)
    with zs show False by simp
  qed
  have "last (strip s) = hd ?zs"
    using zs by (simp add: strip_def last_rev)
  then show "\<not> isspace_char (last (strip s))"
    using zs hd_dropWhile by metis
  have "hd (strip s) = last ?zs"
    using zs by (simp add: strip_def hd_rev)
  also have "\<dots> = last (rev ?ys)"
    using zs by (metis last_appendR takeWhile_dropWhile_id)
  also have "\<dots> = hd ?ys"
    using ys by (simp add: last_rev)
  finally show "\<not> isspace_char (hd (strip s))"
    using ys hd_dropWhile by metis
qed

lemma last_filter_keep: "xs \<noteq> [] \<Longrightarrow> P (last xs) \<Longrightarrow> last (filter P xs) = last xs"
  by (induction xs rule: rev_induct) simp_all

lemma isspace_nbsp: "isspace_char nbsp"
  by code_simp

lemma clean_cell_ends:
  assumes "clean_cell t \<noteq> []"
  shows "\<not> isspace_char (hd (clean_cell t))" and "\<not> isspace_char (last (clean_cell t))"
proof -
  from assms have ne: "strip t \<noteq> []" by (auto simp: clean_cell_def remove_nbsp_def)
  have h: "hd (strip t) \<noteq> nbsp" and l: "last (strip t) \<noteq> nbsp"
    using strip_ends [OF ne] isspace_nbsp by auto
  have "hd (clean_cell t) = hd (strip t)"
    using ne h by (cases "strip t") (simp_all add: clean_cell_def remove_nbsp_def)
  then show "\<not> isspace_char (hd (clean_cell t))"
    using strip_ends(1) [OF ne] by simp
  have "last (clean_cell t) = last (strip t)"
    using ne l by (simp add: clean_cell_def remove_nbsp_def last_filter_keep)
  then show "\<not> isspace_char (last (clean_cell t))"
    using strip_ends(2) [OF ne] by simp
qed

lemma clean_cell_no_nbsp: "nbsp \<notin> set (clean_cell t)"
  by (simp add: clean_cell_def remove_nbsp_def)


subsection \<open>Library rows\<close>

lemma library_rows_acc:
  "library_rows rows data = data @ map library_record (filter library_accepts rows)"
proof (induction rows arbitrary: data)
  case Nil
  show ?case by simp
next
  case (Cons r rows)
  show ?case
  proof (cases "length (query_td r) = 8")
    case True
    then have nth0: "map strip (query_td r) ! 0 = strip (query_td r ! 0)"
      by simp
    show ?thesis
      using True Cons.IH
      by (simp add: Let_def nth0 library_accepts_def library_record_def del: nth_map)
  next
    case False
    then show ?thesis
      using Cons.IH by (simp add: Let_def library_accepts_def)
  qed
qed

text \<open>
  C9, as the claim states it, fails: a row of eight cells whose first cell is the
  superscript three (U+00B3) is kept, since Python's \<^verbatim>\<open>isdigit\<close> holds of it,
  and that text is no valid non-negative integer.
\<close>

theorem library_superscript_row_emitted:
  "library_rows [tds [[CHR 0xB3], ''A100'', ''Algebra'', ''Lang'', ''01-01-2024'',
       ''15-01-2024'', ''0'', ''0'']] [] \<noteq> []
   \<and> \<not> (length (query_td (tds [[CHR 0xB3], ''A100'', ''Algebra'', ''Lang'', ''01-01-2024'',
       ''15-01-2024'', ''0'', ''0''])) = 8
        \<and> spec_nonneg_integer_string
            (strip (query_td (tds [[CHR 0xB3], ''A100'', ''Algebra'', ''Lang'', ''01-01-2024'',
       ''15-01-2024'', ''0'', ''0'']) ! 0)))"
  by code_simp

text \<open>
  C9, amended: the loop of \<^verbatim>\<open>fetch_library_books\<close> emits, in row order, one Record
  for each row that has exactly 8 \<^verbatim>\<open>td\<close> cells and whose first cell's trimmed text
  passes \<^verbatim>\<open>isdigit\<close> (it is not empty and each character is a decimal digit or one
  of the superscript digits), and nothing for any other row. Every 8-cell row whose first
  cell is a valid non-negative integer string in the specification's sense is among them.
\<close>

theorem library_rows_emit_iff_isdigit:
  "library_rows rows [] = map library_record (filter library_accepts rows)
   \<and> (library_accepts r \<longleftrightarrow>
        length (query_td r) = 8 \<and> strip (query_td r ! 0) \<noteq> []
        \<and> list_all isdigit_char (strip (query_td r ! 0)))
   \<and> (length (query_td r) = 8 \<and> spec_nonneg_integer_string (strip (query_td r ! 0))
        \<longrightarrow> library_accepts r)"
proof -
  have a: "library_rows rows [] = map library_record (filter library_accepts rows)"
    by (simp add: library_rows_acc)
  have b: "library_accepts r \<longleftrightarrow>
        length (query_td r) = 8 \<and> strip (query_td r ! 0) \<noteq> []
        \<and> list_all isdigit_char (strip (query_td r ! 0))"
    by (simp add: library_accepts_def isdigit_def)
  have c: "length (query_td r) = 8 \<and> spec_nonneg_integer_string (strip (query_td r ! 0))
        \<longrightarrow> library_accepts r"
    by (simp add: library_accepts_def spec_integer_isdigit)
  from a b c show ?thesis by blast
qed

theorem library_rows_emit_iff_isdigit_witness:
  "library_accepts (tds [''12 '', ''A100'', ''Algebra'', ''Lang'', ''01-01-2024'',
       ''15-01-2024'', ''0'', ''0''])
   \<and> library_rows [tds [''Sl.No'', ''Acc.No''], tds [''12 '', ''A100'', ''Algebra'', ''Lang'',
       ''01-01-2024'', ''15-01-2024'', ''0'', ''0'']] [] =
     [[(''Sl.No'', ''12''), (''Acc.No'', ''A100''), (''Title'', ''Algebra''),
       (''Author'', ''Lang''), (''Issue Date'', ''01-01-2024''),
       (''Due Date'', ''15-01-2024''), (''Fine Days'', ''0''), (''Fine Amount'', ''0'')]]"
proof -
  let ?r = "tds [''12 '', ''A100'', ''Algebra'', ''Lang'', ''01-01-2024'',
       ''15-01-2024'', ''0'', ''0'']"
  have h: "length (query_td ?r) = 8 \<and> spec_nonneg_integer_string (strip (query_td ?r ! 0))"
    by code_simp
  have acc: "library_accepts ?r"
    using library_rows_emit_iff_isdigit [of "[]" ?r] h by blast
  have run: "library_rows [tds [''Sl.No'', ''Acc.No''], ?r] [] =
     [[(''Sl.No'', ''12''), (''Acc.No'', ''A100''), (''Title'', ''Algebra''),
       (''Author'', ''Lang''), (''Issue Date'', ''01-01-2024''),
       (''Due Date'', ''15-01-2024''), (''Fine Days'', ''0''), (''Fine Amount'', ''0'')]]"
    by code_simp
  from acc run show ?thesis by blast
qed

subsection \<open>Table classification\<close>

lemma startswith_iff: "startswith s p \<longleftrightarrow> (\<exists>b. s = p @ b)"
proof
  assume "startswith s p"
  then have "s = p @ drop (length p) s"
    by (metis append_take_drop_id startswith_def)
  then show "\<exists>b. s = p @ b" ..
next
  assume "\<exists>b. s = p @ b"
  then show "startswith s p" by (auto simp: startswith_def)
qed

lemma contains_iff: "contains s p \<longleftrightarrow> (\<exists>a b. s = a @ p @ b)"
proof (induction s)
  case Nil
  show ?case by auto
next
  case (Cons c cs)
  show ?case
  proof
    assume "contains (c # cs) p"
    then consider "startswith (c # cs) p" | "contains cs p" by auto
    then show "\<exists>a b. c # cs = a @ p @ b"
    proof cases
      case 1
      then obtain b where "c # cs = [] @ p @ b" by (auto simp: startswith_iff)
      then show ?thesis by blast
    next
      case 2
      with Cons.IH obtain a b where "cs = a @ p @ b" by auto
      then have "c # cs = (c # a) @ p @ b" by simp
      then show ?thesis by blast
    qed
  next
    assume "\<exists>a b. c # cs = a @ p @ b"
    then obtain a b where ab: "c # cs = a @ p @ b" by auto
    show "contains (c # cs) p"
    proof (cases a)
      case Nil
      with ab have "startswith (c # cs) p" by (auto simp: startswith_iff)
      then show ?thesis by simp
    next
      case (Cons x a')
      with ab have "cs = a' @ p @ b" by simp
      with Cons.IH have "contains cs p" by auto
      then show ?thesis by simp
    qed
  qed
qed

lemma ci_startswith_iff: "startswith (lower h) p \<longleftrightarrow> spec_ci_startswith h p"
proof
  assume "startswith (lower h) p"
  then have "lower (take (length p) h) = p"
    by (simp add: startswith_def lower_def take_map)
  moreover have "h = take (length p) h @ drop (length p) h" by simp
  ultimately show "spec_ci_startswith h p"
    unfolding spec_ci_startswith_def by blast
next
  assume "spec_ci_startswith h p"
  then obtain a b where "h = a @ b" "lower a = p"
    unfolding spec_ci_startswith_def by blast
  then show "startswith (lower h) p"
    by (auto simp: startswith_def lower_def)
qed

lemma ci_contains_iff: "contains (lower h) p \<longleftrightarrow> spec_ci_contains h p"
proof
  assume "contains (lower h) p"
  then obtain a b where eq: "map lower_char h = a @ p @ b"
    by (auto simp: contains_iff lower_def)
  let ?m = "take (length p) (drop (length a) h)"
  from eq have "take (length p) (drop (length a) (map lower_char h)) = p"
    by simp
  then have low: "lower ?m = p"
    by (simp add: lower_def take_map drop_map)
  have "h = take (length a) h @ ?m @ drop (length p) (drop (length a) h)"
    by (simp only: append_take_drop_id)
  with low show "spec_ci_contains h p"
    unfolding spec_ci_contains_def by blast
next
  assume "spec_ci_contains h p"
  then obtain a m b where "h = a @ m @ b" "lower m = p"
    unfolding spec_ci_contains_def by blast
  then have "lower h = lower a @ p @ lower b"
    by (simp add: lower_def)
  then show "contains (lower h) p"
    unfolding contains_iff by blast
qed

lemma is_timetable_iff:
  "is_timetable (map strip hs) \<longleftrightarrow>
     (\<exists>h\<in>set hs. spec_ci_startswith (strip h) ''day'' \<or> spec_ci_contains (strip h) ''period'')"
  by (simp add: is_timetable_def list_ex_iff ci_startswith_iff ci_contains_iff)

lemma is_faculty_iff:
  "is_faculty (map strip hs) \<longleftrightarrow>
     (\<exists>h\<in>set hs. spec_ci_contains (strip h) ''subject code''
                 \<or> spec_ci_contains (strip h) ''faculty'')"
  by (simp add: is_faculty_def list_ex_iff ci_contains_iff)

lemma extract_tables_single:
  "extract_tables [t] ([], []) = (timetable_of t, faculty_of t)"
  by (simp add: extract_tables_acc)

text \<open>
  C4: a table is classified as timetable exactly when some header cell's trimmed text,
  read case-insensitively, starts with "day" or contains "period", and as faculty
  allocation exactly when some header cell's trimmed text contains "subject code" or
  "faculty". The two tests are evaluated independently: what one table adds to the
  timetable depends on the first test only, what it adds to the faculty list on the
  second only, and the result for a list of tables is the concatenation of what each
  table adds. A table that passes neither test adds no Record of either kind, and a table
  that passes both is processed by both row loops.
\<close>

theorem table_classification_independent:
  "(is_timetable (map strip (hdr_cells t)) \<longleftrightarrow>
      (\<exists>h\<in>set (hdr_cells t).
         spec_ci_startswith (strip h) ''day'' \<or> spec_ci_contains (strip h) ''period''))
   \<and> (is_faculty (map strip (hdr_cells t)) \<longleftrightarrow>
      (\<exists>h\<in>set (hdr_cells t).
         spec_ci_contains (strip h) ''subject code'' \<or> spec_ci_contains (strip h) ''faculty''))
   \<and> fst (extract_tables [t] ([], [])) =
       (if is_timetable (map strip (hdr_cells t))
        then timetable_rows (drop 1 (trs t)) [] else [])
   \<and> snd (extract_tables [t] ([], [])) =
       (if is_faculty (map strip (hdr_cells t))
        then faculty_rows (drop 1 (trs t)) [] else [])
   \<and> extract_tables tables ([], []) =
       (concat (map (\<lambda>t. fst (extract_tables [t] ([], []))) tables),
        concat (map (\<lambda>t. snd (extract_tables [t] ([], []))) tables))
   \<and> (\<not> is_timetable (map strip (hdr_cells t)) \<and> \<not> is_faculty (map strip (hdr_cells t))
        \<longrightarrow> extract_tables [t] ([], []) = ([], []))
   \<and> (is_timetable (map strip (hdr_cells t)) \<and> is_faculty (map strip (hdr_cells t))
        \<longrightarrow> extract_tables [t] ([], []) =
              (timetable_rows (drop 1 (trs t)) [], faculty_rows (drop 1 (trs t)) []))"
proof -
  have all: "extract_tables tables ([], []) =
       (concat (map (\<lambda>t. fst (extract_tables [t] ([], []))) tables),
        concat (map (\<lambda>t. snd (extract_tables [t] ([], []))) tables))"
    by (simp add: extract_tables_acc [of tables "[]" "[]"] extract_tables_single
          del: extract_tables.simps)
  have one: "extract_tables [t] ([], []) = (timetable_of t, faculty_of t)"
    by (rule extract_tables_single)
  show ?thesis
    using is_timetable_iff [of "hdr_cells t"] is_faculty_iff [of "hdr_cells t"] all
    by (simp add: one timetable_of_def faculty_of_def)
qed

theorem table_classification_independent_witness:
  "is_timetable (map strip (hdr_cells both_table))
   \<and> is_faculty (map strip (hdr_cells both_table))
   \<and> extract_tables [both_table] ([], []) =
       (timetable_rows (drop 1 (trs both_table)) [], faculty_rows (drop 1 (trs both_table)) [])
   \<and> \<not> is_timetable (map strip (hdr_cells neither_table))
   \<and> \<not> is_faculty (map strip (hdr_cells neither_table))
   \<and> extract_tables [neither_table] ([], []) = ([], [])"
proof -
  have b: "is_timetable (map strip (hdr_cells both_table))
     \<and> is_faculty (map strip (hdr_cells both_table))"
    by code_simp
  have n: "\<not> is_timetable (map strip (hdr_cells neither_table))
     \<and> \<not> is_faculty (map strip (hdr_cells neither_table))"
    by code_simp
  from b table_classification_independent [of both_table "[]"]
  have bb: "extract_tables [both_table] ([], []) =
       (timetable_rows (drop 1 (trs both_table)) [], faculty_rows (drop 1 (trs both_table)) [])"
    by blast
  from n table_classification_independent [of neither_table "[]"]
  have nn: "extract_tables [neither_table] ([], []) = ([], [])"
    by blast
  from b n bb nn show ?thesis by blast
qed

subsection \<open>Timetable rows\<close>

lemma distinct_std_headers: "distinct std_headers" "length std_headers = 9"
  by (simp_all add: std_headers_def)

lemma timetable_record_zip:
  "length (query_td r) = 9 \<Longrightarrow>
     timetable_record r = zip std_headers (map (\<lambda>c. remove_nbsp (strip c)) (query_td r))"
proof -
  assume len: "length (query_td r) = 9"
  have cc: "clean_cell = (\<lambda>c. remove_nbsp (strip c))"
    by (rule ext) (simp add: clean_cell_def)
  have "py_dict (zip std_headers (map clean_cell (query_td r))) =
      zip std_headers (map clean_cell (query_td r))"
    by (rule py_dict_zip) (simp_all add: distinct_std_headers len)
  then show ?thesis
    unfolding timetable_record_def by (simp only: cc)
qed

text \<open>
  C5: of the rows after the header row of a table classified as timetable, exactly those
  with 9 \<^verbatim>\<open>td\<close> cells give a Record, in row order; the Record pairs the nine standard
  headers with the cell texts, each trimmed and with every non-breaking space removed, so
  that no value contains a non-breaking space or begins or ends with whitespace. A row
  with any other number of cells adds nothing: the loop has no failing branch.
\<close>

theorem timetable_rows_emit_iff_nine_cells:
  "timetable_rows rows [] =
     map timetable_record (filter (\<lambda>r. length (query_td r) = 9) rows)
   \<and> (is_timetable (map strip (hdr_cells t)) \<longrightarrow>
        fst (extract_tables [t] ([], [])) =
          map timetable_record (filter (\<lambda>r. length (query_td r) = 9) (drop 1 (trs t))))
   \<and> (length (query_td r) = 9 \<longrightarrow>
        timetable_rows [r] [] =
          [zip std_headers (map (\<lambda>c. remove_nbsp (strip c)) (query_td r))])
   \<and> (length (query_td r) \<noteq> 9 \<longrightarrow> timetable_rows [r] [] = [])
   \<and> nbsp \<notin> set (remove_nbsp (strip c))
   \<and> (remove_nbsp (strip c) \<noteq> [] \<longrightarrow>
        \<not> isspace_char (hd (remove_nbsp (strip c)))
        \<and> \<not> isspace_char (last (remove_nbsp (strip c))))"
proof -
  have a: "timetable_rows rows [] =
     map timetable_record (filter (\<lambda>r. length (query_td r) = 9) rows)" for rows
    by (simp add: timetable_rows_acc [of rows "[]"])
  have b: "is_timetable (map strip (hdr_cells t)) \<longrightarrow>
        fst (extract_tables [t] ([], [])) =
          map timetable_record (filter (\<lambda>r. length (query_td r) = 9) (drop 1 (trs t)))"
    by (simp add: extract_tables_single timetable_of_def a del: extract_tables.simps)
  have c: "length (query_td r) = 9 \<longrightarrow>
        timetable_rows [r] [] =
          [zip std_headers (map (\<lambda>c. remove_nbsp (strip c)) (query_td r))]"
    by (simp add: a timetable_record_zip del: timetable_rows.simps)
  have d: "length (query_td r) \<noteq> 9 \<longrightarrow> timetable_rows [r] [] = []"
    by (simp add: a del: timetable_rows.simps)
  have e: "nbsp \<notin> set (remove_nbsp (strip c))"
    using clean_cell_no_nbsp [of c] by (simp add: clean_cell_def)
  have f: "remove_nbsp (strip c) \<noteq> [] \<longrightarrow>
        \<not> isspace_char (hd (remove_nbsp (strip c)))
        \<and> \<not> isspace_char (last (remove_nbsp (strip c)))"
    using clean_cell_ends [of c] by (simp add: clean_cell_def)
  from a [of rows] b c d e f show ?thesis by blast
qed

theorem timetable_rows_emit_iff_nine_cells_witness:
  "is_timetable (map strip (hdr_cells both_table))
   \<and> fst (extract_tables [both_table] ([], [])) =
       [[(''Day'', ''Mon''), (''Period 1'', ''M1''), (''Period 2'', ''P1''),
         (''Period 3'', ''C1''), (''Break'', []), (''Period 4'', ''E1''),
         (''Period 5'', ''M2''), (''Period 6'', ''P2''), (''Period 7'', ''Lab'')]]
   \<and> timetable_rows [tds [''Tue'', [nbsp], '' P1'', ''C1 '', [], ''E1'', ''M2'', ''P2'',
          [CHR ''L'', nbsp, CHR ''b'']]] [] =
       [[(''Day'', ''Tue''), (''Period 1'', []), (''Period 2'', ''P1''),
         (''Period 3'', ''C1''), (''Break'', []), (''Period 4'', ''E1''),
         (''Period 5'', ''M2''), (''Period 6'', ''P2''), (''Period 7'', ''Lb'')]]
   \<and> timetable_rows [tds [''CS101'', ''Programming'']] [] = []
   \<and> \<not> isspace_char (hd (remove_nbsp (strip [CHR '' '', CHR ''L'', nbsp, CHR ''b'', nbsp])))"
proof -
  let ?r = "tds [''Tue'', [nbsp], '' P1'', ''C1 '', [], ''E1'', ''M2'', ''P2'',
          [CHR ''L'', nbsp, CHR ''b'']]"
  let ?q = "tds [''CS101'', ''Programming'']"
  let ?c = "[CHR '' '', CHR ''L'', nbsp, CHR ''b'', nbsp]"
  note inst1 = timetable_rows_emit_iff_nine_cells [of "[]" both_table ?r ?c]
  note inst2 = timetable_rows_emit_iff_nine_cells [of "[]" both_table ?q ?c]
  have h1: "is_timetable (map strip (hdr_cells both_table))" by code_simp
  have h2: "length (query_td ?r) = 9" by code_simp
  have h3: "length (query_td ?q) \<noteq> 9" by code_simp
  have h4: "remove_nbsp (strip ?c) \<noteq> []" by code_simp
  have v1: "map timetable_record
       (filter (\<lambda>r. length (query_td r) = 9) (drop 1 (trs both_table))) =
       [[(''Day'', ''Mon''), (''Period 1'', ''M1''), (''Period 2'', ''P1''),
         (''Period 3'', ''C1''), (''Break'', []), (''Period 4'', ''E1''),
         (''Period 5'', ''M2''), (''Period 6'', ''P2''), (''Period 7'', ''Lab'')]]"
    by code_simp
  have v2: "[zip std_headers (map (\<lambda>c. remove_nbsp (strip c)) (query_td ?r))] =
       [[(''Day'', ''Tue''), (''Period 1'', []), (''Period 2'', ''P1''),
         (''Period 3'', ''C1''), (''Break'', []), (''Period 4'', ''E1''),
         (''Period 5'', ''M2''), (''Period 6'', ''P2''), (''Period 7'', ''Lb'')]]"
    by code_simp
  from inst1 h1 v1 have c1: "fst (extract_tables [both_table] ([], [])) =
       [[(''Day'', ''Mon''), (''Period 1'', ''M1''), (''Period 2'', ''P1''),
         (''Period 3'', ''C1''), (''Break'', []), (''Period 4'', ''E1''),
         (''Period 5'', ''M2''), (''Period 6'', ''P2''), (''Period 7'', ''Lab'')]]"
    by simp
  from inst1 h2 v2 have c2: "timetable_rows [?r] [] =
       [[(''Day'', ''Tue''), (''Period 1'', []), (''Period 2'', ''P1''),
         (''Period 3'', ''C1''), (''Break'', []), (''Period 4'', ''E1''),
         (''Period 5'', ''M2''), (''Period 6'', ''P2''), (''Period 7'', ''Lb'')]]"
    by simp
  from inst2 h3 have c3: "timetable_rows [?q] [] = []" by blast
  from inst1 h4 have c4: "\<not> isspace_char (hd (remove_nbsp (strip ?c)))" by blast
  from h1 c1 c2 c3 c4 show ?thesis by blast
qed

subsection \<open>Faculty rows\<close>

lemma faculty_rows_concat:
  "faculty_rows rows [] = concat (map (\<lambda>r. faculty_rows [r] []) rows)"
proof -
  have one: "faculty_rows [r] [] = (if length (query_td r) \<ge> 3 then [faculty_record r] else [])"
    for r
    by (simp add: faculty_rows_acc [of "[r]" "[]"] del: faculty_rows.simps)
  have "map faculty_record (filter (\<lambda>r. length (query_td r) \<ge> 3) rows) =
      concat (map (\<lambda>r. if length (query_td r) \<ge> 3 then [faculty_record r] else []) rows)"
    by (induction rows) simp_all
  then show ?thesis
    by (simp add: faculty_rows_acc [of rows "[]"] one del: faculty_rows.simps)
qed

text \<open>
  C8: of the rows after the header row of a table classified as faculty allocation,
  exactly those with at least 3 \<^verbatim>\<open>td\<close> cells give a Record, in row order. The Record
  maps Subject Code, Subject and Faculty Name to cells 0, 1 and 2, and Initials to
  cell 3 when the row has one and to the empty string otherwise (each value trimmed and
  freed of non-breaking spaces).
\<close>

theorem faculty_rows_emit_iff_three_cells:
  "faculty_rows rows [] = concat (map (\<lambda>r. faculty_rows [r] []) rows)
   \<and> (is_faculty (map strip (hdr_cells t)) \<longrightarrow>
        snd (extract_tables [t] ([], [])) =
          concat (map (\<lambda>r. faculty_rows [r] []) (drop 1 (trs t))))
   \<and> (length (query_td r) < 3 \<longrightarrow> faculty_rows [r] [] = [])
   \<and> (query_td r = [c0, c1, c2] \<longrightarrow>
        faculty_rows [r] [] =
          [[(''Subject Code'', clean_cell c0), (''Subject'', clean_cell c1),
            (''Faculty Name'', clean_cell c2), (''Initials'', [])]])
   \<and> (query_td r = c0 # c1 # c2 # c3 # cs \<longrightarrow>
        faculty_rows [r] [] =
          [[(''Subject Code'', clean_cell c0), (''Subject'', clean_cell c1),
            (''Faculty Name'', clean_cell c2), (''Initials'', clean_cell c3)]])"
proof -
  have a: "faculty_rows rows [] = concat (map (\<lambda>r. faculty_rows [r] []) rows)" for rows
    by (rule faculty_rows_concat)
  have b: "is_faculty (map strip (hdr_cells t)) \<longrightarrow>
        snd (extract_tables [t] ([], [])) =
          concat (map (\<lambda>r. faculty_rows [r] []) (drop 1 (trs t)))"
    using a [of "drop 1 (trs t)"]
    by (simp add: extract_tables_single faculty_of_def
          del: extract_tables.simps faculty_rows.simps)
  have c: "length (query_td r) < 3 \<longrightarrow> faculty_rows [r] [] = []"
    by (simp add: Let_def)
  have d: "query_td r = [c0, c1, c2] \<longrightarrow>
        faculty_rows [r] [] =
          [[(''Subject Code'', clean_cell c0), (''Subject'', clean_cell c1),
            (''Faculty Name'', clean_cell c2), (''Initials'', [])]]"
    by (simp add: Let_def)
  have e: "query_td r = c0 # c1 # c2 # c3 # cs \<longrightarrow>
        faculty_rows [r] [] =
          [[(''Subject Code'', clean_cell c0), (''Subject'', clean_cell c1),
            (''Faculty Name'', clean_cell c2), (''Initials'', clean_cell c3)]]"
    by (simp add: Let_def)
  from a [of rows] b c d e show ?thesis by blast
qed

theorem faculty_rows_emit_iff_three_cells_witness:
  "is_faculty (map strip (hdr_cells both_table))
   \<and> snd (extract_tables [both_table] ([], [])) =
       [[(''Subject Code'', ''Mon''), (''Subject'', ''M1''), (''Faculty Name'', ''P1''),
         (''Initials'', ''C1'')]]
   \<and> faculty_rows [tds [''CS101'', ''Programming'']] [] = []
   \<and> faculty_rows [tds [''CS101'', '' Programming'', ''A. Rao '']] [] =
       [[(''Subject Code'', ''CS101''), (''Subject'', ''Programming''),
         (''Faculty Name'', ''A. Rao''), (''Initials'', [])]]
   \<and> faculty_rows [tds [''CS101'', ''Programming'', ''A. Rao'', ''AR'', ''x'']] [] =
       [[(''Subject Code'', ''CS101''), (''Subject'', ''Programming''),
         (''Faculty Name'', ''A. Rao''), (''Initials'', ''AR'')]]"
proof -
  let ?r2 = "tds [''CS101'', ''Programming'']"
  let ?r3 = "tds [''CS101'', '' Programming'', ''A. Rao '']"
  let ?r5 = "tds [''CS101'', ''Programming'', ''A. Rao'', ''AR'', ''x'']"
  have h1: "is_faculty (map strip (hdr_cells both_table))" by code_simp
  have h2: "length (query_td ?r2) < 3" by code_simp
  have h3: "query_td ?r3 = [''CS101'', '' Programming'', ''A. Rao '']" by code_simp
  have h5: "query_td ?r5 = ''CS101'' # ''Programming'' # ''A. Rao'' # ''AR'' # [''x'']"
    by code_simp
  have v1: "concat (map (\<lambda>r. faculty_rows [r] []) (drop 1 (trs both_table))) =
       [[(''Subject Code'', ''Mon''), (''Subject'', ''M1''), (''Faculty Name'', ''P1''),
         (''Initials'', ''C1'')]]"
    by code_simp
  have v3: "clean_cell ''CS101'' = ''CS101'' \<and> clean_cell '' Programming'' = ''Programming''
     \<and> clean_cell ''A. Rao '' = ''A. Rao'' \<and> clean_cell ''Programming'' = ''Programming''
     \<and> clean_cell ''A. Rao'' = ''A. Rao'' \<and> clean_cell ''AR'' = ''AR''"
    by code_simp
  from faculty_rows_emit_iff_three_cells [of "[]" both_table ?r2] h1 h2 v1
  have c1: "snd (extract_tables [both_table] ([], [])) =
       [[(''Subject Code'', ''Mon''), (''Subject'', ''M1''), (''Faculty Name'', ''P1''),
         (''Initials'', ''C1'')]]"
    and c2: "faculty_rows [?r2] [] = []"
    by simp_all
  from faculty_rows_emit_iff_three_cells
         [of "[]" both_table ?r3 "''CS101''" "'' Programming''" "''A. Rao ''"] h3 v3
  have c3: "faculty_rows [?r3] [] =
       [[(''Subject Code'', ''CS101''), (''Subject'', ''Programming''),
         (''Faculty Name'', ''A. Rao''), (''Initials'', [])]]"
    by simp
  from faculty_rows_emit_iff_three_cells
         [of "[]" both_table ?r5 "''CS101''" "''Programming''" "''A. Rao''" "''AR''" "[''x'']"]
       h5 v3
  have c5: "faculty_rows [?r5] [] =
       [[(''Subject Code'', ''CS101''), (''Subject'', ''Programming''),
         (''Faculty Name'', ''A. Rao''), (''Initials'', ''AR'')]]"
    by simp
  from h1 c1 c2 c3 c5 show ?thesis by blast
qed

subsection \<open>Academic calendar\<close>




subsection \<open>Personal details\<close>

lemma set_dict_set: "set (dict_set d k v) \<subseteq> insert (k, v) (set d)"
  by (induction d) (auto split: if_splits)

lemma add_pair_nonempty:
  "list_all (\<lambda>kv. fst kv \<noteq> [] \<and> snd kv \<noteq> []) bio \<Longrightarrow>
   list_all (\<lambda>kv. fst kv \<noteq> [] \<and> snd kv \<noteq> []) (add_pair l v bio)"
  using set_dict_set [of bio "rstrip_colon (strip l)" "strip v"]
  by (auto simp: add_pair_def list_all_iff)

lemma bio_rows_step:
  "bio_rows (r # rows) bio =
     bio_rows rows
       (if length (query_td r) = 2 then add_pair (query_td r ! 0) (query_td r ! 1) bio
        else if length (query_td r) \<ge> 6
        then add_pair (query_td r ! 3) (query_td r ! 5)
               (add_pair (query_td r ! 0) (query_td r ! 2) bio)
        else bio)"
  by (simp add: Let_def add_pair_def)

lemma bio_rows_nonempty:
  "list_all (\<lambda>kv. fst kv \<noteq> [] \<and> snd kv \<noteq> []) bio \<Longrightarrow>
   list_all (\<lambda>kv. fst kv \<noteq> [] \<and> snd kv \<noteq> []) (bio_rows rows bio)"
proof (induction rows arbitrary: bio)
  case Nil
  then show ?case by simp
next
  case (Cons r rows)
  show ?case
    unfolding bio_rows_step
    by (rule Cons.IH) (simp add: add_pair_nonempty Cons.prems)
qed

lemma bio_rows_append: "bio_rows (rows1 @ rows2) bio = bio_rows rows2 (bio_rows rows1 bio)"
  by (induction rows1 arbitrary: bio) (simp_all add: bio_rows_step del: bio_rows.simps(2))

text \<open>
  C10: a row of two cells stores its one pair, and a row of six or more cells stores the
  pair of columns 0 and 2 and then, independently, the pair of columns 3 and 5; a pair is
  stored only when the label, trimmed and freed of trailing colons, and the trimmed value
  are both non-empty, and is otherwise left out. A row of 0, 1, 3, 4 or 5 cells leaves the
  dictionary as it is. So no pair of the result has an empty label or an empty value.
\<close>

theorem bio_pair_added_only_if_nonempty:
  "(length (query_td r) = 2 \<longrightarrow>
      bio_rows [r] bio =
        (if rstrip_colon (strip (query_td r ! 0)) \<noteq> [] \<and> strip (query_td r ! 1) \<noteq> []
         then dict_set bio (rstrip_colon (strip (query_td r ! 0))) (strip (query_td r ! 1))
         else bio))
   \<and> (length (query_td r) \<ge> 6 \<longrightarrow>
      bio_rows [r] bio =
        add_pair (query_td r ! 3) (query_td r ! 5)
          (add_pair (query_td r ! 0) (query_td r ! 2) bio))
   \<and> (add_pair l v bio =
        (if rstrip_colon (strip l) \<noteq> [] \<and> strip v \<noteq> []
         then dict_set bio (rstrip_colon (strip l)) (strip v) else bio))
   \<and> (length (query_td r) \<in> {0, 1, 3, 4, 5} \<longrightarrow> bio_rows [r] bio = bio)
   \<and> bio_rows (rows1 @ rows2) bio = bio_rows rows2 (bio_rows rows1 bio)
   \<and> list_all (\<lambda>kv. fst kv \<noteq> [] \<and> snd kv \<noteq> []) (bio_rows rows [])"
proof -
  have a: "length (query_td r) = 2 \<longrightarrow>
      bio_rows [r] bio =
        (if rstrip_colon (strip (query_td r ! 0)) \<noteq> [] \<and> strip (query_td r ! 1) \<noteq> []
         then dict_set bio (rstrip_colon (strip (query_td r ! 0))) (strip (query_td r ! 1))
         else bio)"
    by (simp add: Let_def)
  have b: "length (query_td r) \<ge> 6 \<longrightarrow>
      bio_rows [r] bio =
        add_pair (query_td r ! 3) (query_td r ! 5)
          (add_pair (query_td r ! 0) (query_td r ! 2) bio)"
    by (simp add: bio_rows_step del: bio_rows.simps(2))
  have c: "add_pair l v bio =
        (if rstrip_colon (strip l) \<noteq> [] \<and> strip v \<noteq> []
         then dict_set bio (rstrip_colon (strip l)) (strip v) else bio)"
    by (simp add: add_pair_def)
  have d: "length (query_td r) \<in> {0, 1, 3, 4, 5} \<longrightarrow> bio_rows [r] bio = bio"
    by (auto simp: bio_rows_step simp del: bio_rows.simps(2))
  have e: "bio_rows (rows1 @ rows2) bio = bio_rows rows2 (bio_rows rows1 bio)"
    by (rule bio_rows_append)
  have f: "list_all (\<lambda>kv. fst kv \<noteq> [] \<and> snd kv \<noteq> []) (bio_rows rows [])"
    by (rule bio_rows_nonempty) simp
  from a b c d e f show ?thesis by blast
qed

theorem bio_pair_added_only_if_nonempty_witness:
  "bio_rows bio_page [] = [(''Name '', ''RAVI''), (''Roll No'', ''21A1''), (''Branch '', ''CSE'')]
   \<and> bio_rows [tds [''Name :'', '' RAVI '']] [(''Name '', ''old'')] = [(''Name '', ''RAVI'')]
   \<and> bio_rows [tds [''Gender'', '':'', ''M'']] [(''Name '', ''old'')] = [(''Name '', ''old'')]
   \<and> bio_rows [tds [''Father'', '':'', '' '', '':'', '':'', ''x'']] [] = []"
proof -
  let ?r2 = "tds [''Name :'', '' RAVI '']"
  let ?r3 = "tds [''Gender'', '':'', ''M'']"
  let ?r6 = "tds [''Father'', '':'', '' '', '':'', '':'', ''x'']"
  let ?b = "[(''Name '', ''old'')]"
  have h2: "length (query_td ?r2) = 2" by code_simp
  have h3: "length (query_td ?r3) \<in> {0, 1, 3, 4, 5}" by code_simp
  have h6: "length (query_td ?r6) \<ge> 6" by code_simp
  have v2: "(if rstrip_colon (strip (query_td ?r2 ! 0)) \<noteq> [] \<and> strip (query_td ?r2 ! 1) \<noteq> []
         then dict_set ?b (rstrip_colon (strip (query_td ?r2 ! 0))) (strip (query_td ?r2 ! 1))
         else ?b) = [(''Name '', ''RAVI'')]"
    by code_simp
  have v6: "add_pair (query_td ?r6 ! 3) (query_td ?r6 ! 5)
          (add_pair (query_td ?r6 ! 0) (query_td ?r6 ! 2) []) = []"
    by code_simp
  have run: "bio_rows bio_page [] =
      [(''Name '', ''RAVI''), (''Roll No'', ''21A1''), (''Branch '', ''CSE'')]"
    by code_simp
  from bio_pair_added_only_if_nonempty [of ?r2 ?b] h2 v2
  have c2: "bio_rows [?r2] ?b = [(''Name '', ''RAVI'')]" by simp
  from bio_pair_added_only_if_nonempty [of ?r3 ?b] h3
  have c3: "bio_rows [?r3] ?b = ?b" by blast
  from bio_pair_added_only_if_nonempty [of ?r6 "[]"] h6 v6
  have c6: "bio_rows [?r6] [] = []" by simp
  from run c2 c3 c6 show ?thesis by blast
qed

subsection \<open>Education records\<close>

lemma edu_key_empty: "edu_key [] = None"
  by (simp add: edu_key_def)

lemma edu_rows_step:
  "edu_rows (r # rows) edu =
     edu_rows rows
       (if edu_overwrites r
        then dict_set edu (the (edu_key (lower (strip (query_td r ! 0)))))
               (zip edu_field_names (edu_fields (query_td r)))
        else edu)"
proof (cases "lower (strip (query_td r ! 0)) = []")
  case True
  then show ?thesis
    by (simp add: Let_def edu_overwrites_def edu_key_empty)
next
  case False
  then show ?thesis
    by (cases "edu_key (lower (strip (query_td r ! 0)))")
       (simp_all add: Let_def edu_overwrites_def not_less)
qed

lemma edu_rows_changed:
  "edu_rows rows edu \<noteq> edu \<Longrightarrow> list_ex edu_overwrites rows"
proof (induction rows arbitrary: edu)
  case Nil
  then show ?case by simp
next
  case (Cons r rows)
  show ?case
  proof (cases "edu_overwrites r")
    case True
    then show ?thesis by simp
  next
    case False
    with Cons.prems have "edu_rows rows edu \<noteq> edu"
      by (simp add: edu_rows_step del: edu_rows.simps(2))
    from Cons.IH [OF this] show ?thesis by simp
  qed
qed

text \<open>
  C6: the education loop changes the records only at a row that overwrites: one with at
  least seven cells and a recognised qualification for which at least one of the eight
  extracted fields is non-empty. A row whose eight extracted fields are all empty leaves
  the records as they are; a recognised row with a non-empty field stores its eight
  fields under its key. In particular the row SSC with eight empty fields leaves the
  pre-populated records unchanged.
\<close>

theorem edu_overwritten_only_if_field_nonempty:
  "(edu_rows [r] edu \<noteq> edu \<longrightarrow> list_ex (\<lambda>s. s \<noteq> []) (edu_fields (query_td r)))
   \<and> (edu_rows rows edu \<noteq> edu \<longrightarrow>
        list_ex (\<lambda>r. 7 \<le> length (query_td r)
                     \<and> list_ex (\<lambda>s. s \<noteq> []) (edu_fields (query_td r))) rows)
   \<and> (list_all (\<lambda>s. s = []) (edu_fields (query_td r)) \<longrightarrow> edu_rows [r] edu = edu)
   \<and> (7 \<le> length (query_td r) \<and> edu_key (lower (strip (query_td r ! 0))) = Some key
        \<and> list_ex (\<lambda>s. s \<noteq> []) (edu_fields (query_td r))
        \<longrightarrow> edu_rows [r] edu =
              dict_set edu key (zip edu_field_names (edu_fields (query_td r))))
   \<and> edu_rows [tds [''SSC'', [], [], [], [], [], [], [], []]] edu_default = edu_default
   \<and> education_of [tds [''Qualification''], tds [''SSC'', [], [], [], [], [], [], [], []]]
       = edu_default"
proof -
  have a: "edu_rows [r] edu \<noteq> edu \<longrightarrow> list_ex (\<lambda>s. s \<noteq> []) (edu_fields (query_td r))"
    using edu_rows_changed [of "[r]" edu] by (simp add: edu_overwrites_def)
  have b: "edu_rows rows edu \<noteq> edu \<longrightarrow>
        list_ex (\<lambda>r. 7 \<le> length (query_td r)
                     \<and> list_ex (\<lambda>s. s \<noteq> []) (edu_fields (query_td r))) rows"
    using edu_rows_changed [of rows edu]
    by (auto simp: list_ex_iff edu_overwrites_def)
  have c: "list_all (\<lambda>s. s = []) (edu_fields (query_td r)) \<longrightarrow> edu_rows [r] edu = edu"
    using a by (auto simp: list_all_iff list_ex_iff)
  have d: "7 \<le> length (query_td r) \<and> edu_key (lower (strip (query_td r ! 0))) = Some key
        \<and> list_ex (\<lambda>s. s \<noteq> []) (edu_fields (query_td r))
        \<longrightarrow> edu_rows [r] edu =
              dict_set edu key (zip edu_field_names (edu_fields (query_td r)))"
    by (simp add: edu_rows_step edu_overwrites_def del: edu_rows.simps(2))
  have e: "edu_rows [tds [''SSC'', [], [], [], [], [], [], [], []]] edu_default = edu_default"
    by code_simp
  have f: "education_of [tds [''Qualification''], tds [''SSC'', [], [], [], [], [], [], [], []]]
       = edu_default"
    by code_simp
  from a b c d e f show ?thesis by blast
qed

theorem edu_overwritten_only_if_field_nonempty_witness:
  "edu_rows [ssc_blank_row] edu_default = edu_default
   \<and> edu_rows [inter_row] edu_default =
       [(''School (SSC)'', edu_empty_record),
        (''Intermediate'',
           [(''Board'', ''BIE''), (''HallTicketNo'', ''123''), (''YearOfPass'', ''2020''),
            (''Institute'', ''ABC College''), (''MaxMarks'', ''1000''), (''Obtained'', ''950''),
            (''GradeLetter'', []), (''GradePoints'', [])]),
        (''Diploma'', edu_empty_record)]
   \<and> edu_rows [inter_row] edu_default \<noteq> edu_default
   \<and> list_ex (\<lambda>s. s \<noteq> []) (edu_fields (query_td inter_row))"
proof -
  have h1: "list_all (\<lambda>s. s = []) (edu_fields (query_td ssc_blank_row))" by code_simp
  have h2: "7 \<le> length (query_td inter_row)
     \<and> edu_key (lower (strip (query_td inter_row ! 0))) = Some ''Intermediate''
     \<and> list_ex (\<lambda>s. s \<noteq> []) (edu_fields (query_td inter_row))"
    by code_simp
  have v: "dict_set edu_default ''Intermediate''
       (zip edu_field_names (edu_fields (query_td inter_row))) =
       [(''School (SSC)'', edu_empty_record),
        (''Intermediate'',
           [(''Board'', ''BIE''), (''HallTicketNo'', ''123''), (''YearOfPass'', ''2020''),
            (''Institute'', ''ABC College''), (''MaxMarks'', ''1000''), (''Obtained'', ''950''),
            (''GradeLetter'', []), (''GradePoints'', [])]),
        (''Diploma'', edu_empty_record)]"
    by code_simp
  have ne: "[(''School (SSC)'', edu_empty_record),
        (''Intermediate'',
           [(''Board'', ''BIE''), (''HallTicketNo'', ''123''), (''YearOfPass'', ''2020''),
            (''Institute'', ''ABC College''), (''MaxMarks'', ''1000''), (''Obtained'', ''950''),
            (''GradeLetter'', []), (''GradePoints'', [])]),
        (''Diploma'', edu_empty_record)] \<noteq> edu_default"
    by code_simp
  from edu_overwritten_only_if_field_nonempty [of ssc_blank_row edu_default] h1
  have c1: "edu_rows [ssc_blank_row] edu_default = edu_default" by blast
  from edu_overwritten_only_if_field_nonempty
         [of inter_row edu_default "[]" "''Intermediate''"] h2 v
  have c2: "edu_rows [inter_row] edu_default =
       [(''School (SSC)'', edu_empty_record),
        (''Intermediate'',
           [(''Board'', ''BIE''), (''HallTicketNo'', ''123''), (''YearOfPass'', ''2020''),
            (''Institute'', ''ABC College''), (''MaxMarks'', ''1000''), (''Obtained'', ''950''),
            (''GradeLetter'', []), (''GradePoints'', [])]),
        (''Diploma'', edu_empty_record)]"
    by simp
  with ne have c3: "edu_rows [inter_row] edu_default \<noteq> edu_default" by simp
  from edu_overwritten_only_if_field_nonempty [of inter_row edu_default] c3
  have c4: "list_ex (\<lambda>s. s \<noteq> []) (edu_fields (query_td inter_row))" by blast
  from c1 c2 c3 c4 show ?thesis by blast
qed

subsection \<open>Actions\<close>

lemma return_io_Inr: "return_io a w = (Inr b, w') \<longleftrightarrow> b = a \<and> w' = w"
  by (auto simp: return_io_def)

lemma bind_io_Inr:
  "bind_io m f w = (Inr b, w') \<longleftrightarrow> (\<exists>a w1. m w = (Inr a, w1) \<and> f a w1 = (Inr b, w'))"
  by (auto simp: bind_io_def split: prod.splits sum.splits)

lemma call_io_Inr:
  "call_io env p w = (Inr (), w') \<longleftrightarrow> \<not> raises env p \<and> w' = w\<lparr>calls := calls w @ [p]\<rparr>"
  by (auto simp: call_io_def)

lemma do_calls_Inr:
  "do_calls env ps w = (Inr (), w') \<longleftrightarrow>
     list_all (\<lambda>p. \<not> raises env p) ps \<and> w' = w\<lparr>calls := calls w @ ps\<rparr>"
proof (induction ps arbitrary: w)
  case Nil
  show ?case by auto
next
  case (Cons p ps)
  show ?case
    by (cases "raises env p") (auto simp: call_io_def Cons.IH)
qed

lemma do_calls_snd: "\<exists>k. snd (do_calls env ps w) = w\<lparr>calls := calls w @ take k ps\<rparr>"
proof (induction ps arbitrary: w)
  case Nil
  show ?case by simp
next
  case (Cons p ps)
  show ?case
  proof (cases "raises env p")
    case True
    then have "snd (do_calls env (p # ps) w) = w\<lparr>calls := calls w @ take 1 (p # ps)\<rparr>"
      by (simp add: call_io_def)
    then show ?thesis by blast
  next
    case False
    from Cons.IH [of "w\<lparr>calls := calls w @ [p]\<rparr>"] obtain k where
      "snd (do_calls env ps (w\<lparr>calls := calls w @ [p]\<rparr>)) =
         w\<lparr>calls := calls w @ [p] @ take k ps\<rparr>"
      by auto
    with False have "snd (do_calls env (p # ps) w) =
        w\<lparr>calls := calls w @ take (Suc k) (p # ps)\<rparr>"
      by (simp add: call_io_def)
    then show ?thesis by blast
  qed
qed

lemma do_calls_files: "files (snd (do_calls env ps w)) = files w"
proof -
  from do_calls_snd [of env ps w] obtain k where
    "snd (do_calls env ps w) = w\<lparr>calls := calls w @ take k ps\<rparr>" by blast
  then show ?thesis by simp
qed

lemma do_calls_count:
  "c \<notin> set ps \<Longrightarrow> count_list (calls (snd (do_calls env ps w))) c = count_list (calls w) c"
proof -
  assume c: "c \<notin> set ps"
  from do_calls_snd [of env ps w] obtain k where
    k: "snd (do_calls env ps w) = w\<lparr>calls := calls w @ take k ps\<rparr>" by blast
  from c have "c \<notin> set (take k ps)" by (auto dest: in_set_takeD)
  then have "count_list (take k ps) c = 0" by (simp add: count_list_0_iff)
  with k show ?thesis by simp
qed

lemma try_pass_Inr: "try_pass m w = (Inr (), w') \<longleftrightarrow> w' = snd (m w)"
  by (auto simp: try_pass_def)

lemma write_file_Inr:
  "write_file env name content w = (Inr (), w') \<longleftrightarrow>
     \<not> raises env (WriteFile name)
     \<and> w' = w\<lparr>calls := calls w @ [WriteFile name], files := dict_set (files w) name content\<rparr>"
  by (auto simp: write_file_def)

lemma with_playwright_Inr:
  "with_playwright env body w = (Inr a, w') \<longleftrightarrow>
     \<not> raises env PlaywrightStart \<and> \<not> raises env PlaywrightStop
     \<and> (\<exists>w2. body (w\<lparr>calls := calls w @ [PlaywrightStart]\<rparr>) = (Inr a, w2)
             \<and> w' = w2\<lparr>calls := calls w2 @ [PlaywrightStop]\<rparr>)"
  by (auto simp: with_playwright_def call_io_def split: prod.splits sum.splits)

lemma map_of_dict_set: "map_of (dict_set d k v) = (map_of d)(k \<mapsto> v)"
  by (induction d) (auto simp: fun_upd_twist)

lemmas io_Inr = return_io_Inr bind_io_Inr call_io_Inr do_calls_Inr try_pass_Inr
  write_file_Inr with_playwright_Inr

subsection \<open>The session on the successful path\<close>

lemma fetch_attendance_closes_once:
  assumes "fetch_attendance env username password w = (Inr data, w')"
  shows "count_list (calls w') BrowserClose = count_list (calls w) BrowserClose + 1"
  using assms
  by (auto simp: fetch_attendance_def login_and_get_page_def io_Inr Let_def do_calls_count
           simp del: do_calls.simps)

lemma fetch_library_books_closes_once:
  assumes "fetch_library_books env username password w = (Inr data, w')"
  shows "count_list (calls w') BrowserClose = count_list (calls w) BrowserClose + 1"
  using assms
  by (auto simp: fetch_library_books_def login_and_get_page_def io_Inr Let_def
           simp del: do_calls.simps)

lemma fetch_bio_data_closes_once:
  assumes "fetch_bio_data env username password w = (Inr res, w')"
  shows "count_list (calls w') BrowserClose = count_list (calls w) BrowserClose + 1"
  using assms
  by (auto simp: fetch_bio_data_def login_and_get_page_def io_Inr Let_def do_calls_count
           simp del: do_calls.simps)

lemma extract_timetable_and_faculty_Inr:
  assumes "extract_timetable_and_faculty env w = (Inr tf, w1)"
  shows "tf = extract_tables (report_tables env) ([], [])"
    and "count_list (calls w1) BrowserClose = count_list (calls w) BrowserClose"
    and "map_of (files w1) =
           (\<lambda>n. if n = ''output/timetable.json'' \<and> fst tf \<noteq> [] then Some (Json_records (fst tf))
                 else if n = ''output/faculty_allocation.json'' \<and> snd tf \<noteq> []
                 then Some (Json_records (snd tf))
                 else map_of (files w) n)"
  using assms
  by (auto simp: extract_timetable_and_faculty_def io_Inr map_of_dict_set
           split: prod.splits if_splits)

lemma extract_academic_calendar_Inr:
  assumes "extract_academic_calendar env w = (Inr cal, w1)"
  shows "cal = calendar_records (calendar_container env)"
    and "count_list (calls w1) BrowserClose = count_list (calls w) BrowserClose"
    and "map_of (files w1) =
           (\<lambda>n. if n = ''output/academic_calendar.json'' \<and> cal \<noteq> [] then Some (Json_records cal)
                 else map_of (files w) n)"
  using assms
  by (auto simp: extract_academic_calendar_def io_Inr map_of_dict_set Let_def
           split: if_splits)

lemma fetch_timetable_and_calendar_Inr:
  assumes "fetch_timetable_and_calendar env username password w = (Inr (tt, fac, cal), w')"
  shows "count_list (calls w') BrowserClose = count_list (calls w) BrowserClose + 1"
    and "map_of (files w') =
           (\<lambda>n. if n = ''output/academic_calendar.json'' \<and> cal \<noteq> []
                 then Some (Json_records cal)
                 else if n = ''output/timetable.json'' \<and> tt \<noteq> []
                 then Some (Json_records tt)
                 else if n = ''output/faculty_allocation.json'' \<and> fac \<noteq> []
                 then Some (Json_records fac)
                 else map_of (files w) n)"
proof -
  from assms obtain wa wb wc wd tf where
    tf: "extract_timetable_and_faculty env wa = (Inr tf, wb)" "tt = fst tf" "fac = snd tf"
    and cal: "extract_academic_calendar env wc = (Inr cal, wd)"
    and wa: "files wa = files w"
      "count_list (calls wa) BrowserClose = count_list (calls w) BrowserClose"
    and wc: "files wc = files wb"
      "count_list (calls wc) BrowserClose = count_list (calls wb) BrowserClose"
    and w': "files w' = files wd"
      "count_list (calls w') BrowserClose = count_list (calls wd) BrowserClose + 1"
    by (auto simp: fetch_timetable_and_calendar_def login_and_get_page_def io_Inr
             simp del: do_calls.simps)
  from extract_timetable_and_faculty_Inr(2) [OF tf(1)]
       extract_academic_calendar_Inr(2) [OF cal] wa wc w'
  show "count_list (calls w') BrowserClose = count_list (calls w) BrowserClose + 1"
    by simp
  from extract_timetable_and_faculty_Inr(3) [OF tf(1)]
       extract_academic_calendar_Inr(3) [OF cal] wa wc w' tf(2,3)
  show "map_of (files w') =
           (\<lambda>n. if n = ''output/academic_calendar.json'' \<and> cal \<noteq> []
                 then Some (Json_records cal)
                 else if n = ''output/timetable.json'' \<and> tt \<noteq> []
                 then Some (Json_records tt)
                 else if n = ''output/faculty_allocation.json'' \<and> fac \<noteq> []
                 then Some (Json_records fac)
                 else map_of (files w) n)"
    by (simp add: fun_eq_iff)
qed

lemma login_url_distinct:
  "LOGIN_URL \<noteq> ATTENDANCE_URL" "LOGIN_URL \<noteq> LIBRARY_URL" "LOGIN_URL \<noteq> PROFILE_URL"
  by (simp_all add: LOGIN_URL_def ATTENDANCE_URL_def LIBRARY_URL_def PROFILE_URL_def)

text \<open>
  C1 fails on the code. Each scraper calls \<^verbatim>\<open>browser.close()\<close> once, after its
  extraction, and has no handler around the calls before it. When the navigation to the
  report page times out (attendance, library, bio-data), or the wait for the timetable's
  marker does, or the login page cannot be reached, the browser has been launched and
  the exception leaves the function with no call of \<^verbatim>\<open>browser.close()\<close>.
\<close>

theorem scrape_failure_leaves_session_open:
  "fst (fetch_attendance (empty_portal (raises_at (Goto ATTENDANCE_URL))) ''u'' ''p'' world0)
     = Inl (Goto ATTENDANCE_URL)
   \<and> count_list (calls (snd (fetch_attendance (empty_portal (raises_at (Goto ATTENDANCE_URL)))
        ''u'' ''p'' world0))) Launch = 1
   \<and> count_list (calls (snd (fetch_attendance (empty_portal (raises_at (Goto ATTENDANCE_URL)))
        ''u'' ''p'' world0))) BrowserClose = 0
   \<and> fst (fetch_library_books (empty_portal (raises_at (Goto LIBRARY_URL))) ''u'' ''p'' world0)
     = Inl (Goto LIBRARY_URL)
   \<and> count_list (calls (snd (fetch_library_books (empty_portal (raises_at (Goto LIBRARY_URL)))
        ''u'' ''p'' world0))) Launch = 1
   \<and> count_list (calls (snd (fetch_library_books (empty_portal (raises_at (Goto LIBRARY_URL)))
        ''u'' ''p'' world0))) BrowserClose = 0
   \<and> fst (fetch_bio_data (empty_portal (raises_at (Goto PROFILE_URL))) ''u'' ''p'' world0)
     = Inl (Goto PROFILE_URL)
   \<and> count_list (calls (snd (fetch_bio_data (empty_portal (raises_at (Goto PROFILE_URL)))
        ''u'' ''p'' world0))) Launch = 1
   \<and> count_list (calls (snd (fetch_bio_data (empty_portal (raises_at (Goto PROFILE_URL)))
        ''u'' ''p'' world0))) BrowserClose = 0
   \<and> fst (fetch_timetable_and_calendar
        (empty_portal (raises_at (WaitForSelector ''#tblReport''))) ''u'' ''p'' world0)
     = Inl (WaitForSelector ''#tblReport'')
   \<and> count_list (calls (snd (fetch_timetable_and_calendar
        (empty_portal (raises_at (WaitForSelector ''#tblReport''))) ''u'' ''p'' world0))) Launch = 1
   \<and> count_list (calls (snd (fetch_timetable_and_calendar
        (empty_portal (raises_at (WaitForSelector ''#tblReport''))) ''u'' ''p'' world0)))
        BrowserClose = 0"
proof -
  note defs = with_playwright_def bind_io_def call_io_def login_and_get_page_def
    empty_portal_def world0_def try_pass_def login_url_distinct raises_at_def
  have a: "fetch_attendance (empty_portal (raises_at (Goto ATTENDANCE_URL))) ''u'' ''p'' world0 =
      (Inl (Goto ATTENDANCE_URL),
       \<lparr>calls = [PlaywrightStart, Launch, NewPage, Goto LOGIN_URL, Fill ''#txtId2'' ''u'',
          Fill ''#txtPwd2'' ''p'', Click ''#imgBtn2'', WaitForTimeout 2000,
          Goto ATTENDANCE_URL, PlaywrightStop], files = []\<rparr>)"
    by (simp add: fetch_attendance_def defs)
  have b: "fetch_library_books (empty_portal (raises_at (Goto LIBRARY_URL))) ''u'' ''p'' world0 =
      (Inl (Goto LIBRARY_URL),
       \<lparr>calls = [PlaywrightStart, Launch, NewPage, Goto LOGIN_URL, Fill ''#txtId2'' ''u'',
          Fill ''#txtPwd2'' ''p'', Click ''#imgBtn2'', WaitForTimeout 2000,
          Goto LIBRARY_URL, PlaywrightStop], files = []\<rparr>)"
    by (simp add: fetch_library_books_def defs)
  have c: "fetch_bio_data (empty_portal (raises_at (Goto PROFILE_URL))) ''u'' ''p'' world0 =
      (Inl (Goto PROFILE_URL),
       \<lparr>calls = [PlaywrightStart, Launch, NewPage, Goto LOGIN_URL, Fill ''#txtId2'' ''u'',
          Fill ''#txtPwd2'' ''p'', Click ''#imgBtn2'', WaitForTimeout 2000,
          Goto PROFILE_URL, PlaywrightStop], files = []\<rparr>)"
    by (simp add: fetch_bio_data_def defs)
  have d: "fetch_timetable_and_calendar
        (empty_portal (raises_at (WaitForSelector ''#tblReport''))) ''u'' ''p'' world0 =
      (Inl (WaitForSelector ''#tblReport''),
       \<lparr>calls = [PlaywrightStart, Launch, NewPage, Goto LOGIN_URL, Fill ''#txtId2'' ''u'',
          Fill ''#txtPwd2'' ''p'', Click ''#imgBtn2'', WaitForTimeout 2000,
          Goto TIMETABLE_URL, WaitForSelector ''#tblReport'', PlaywrightStop], files = []\<rparr>)"
    by (simp add: fetch_timetable_and_calendar_def defs)
  show ?thesis
    unfolding a b c d by simp
qed

subsection \<open>Files written\<close>

lemma fetch_attendance_files:
  assumes "fetch_attendance env username password w = (Inr data, w')"
  shows "map_of (files w') ''output/attendance_data.json'' = Some (Json_records data)"
    and "map_of (files w') ''output/attendance_data.csv'' =
           Some (Csv (attendance_headers # map (csv_row attendance_headers) data))"
  using assms
  by (auto simp: fetch_attendance_def login_and_get_page_def io_Inr Let_def map_of_dict_set
           simp del: do_calls.simps)

lemma fetch_library_books_files:
  assumes "fetch_library_books env username password w = (Inr data, w')"
  shows "map_of (files w') ''output/library_books.json'' = Some (Json_records data)"
    and "map_of (files w') ''output/library_books.csv'' =
           Some (Csv (library_headers # map (csv_row library_headers) data))"
  using assms
  by (auto simp: fetch_library_books_def login_and_get_page_def io_Inr Let_def map_of_dict_set
           simp del: do_calls.simps)

lemma fetch_bio_data_files:
  assumes "fetch_bio_data env username password w = (Inr (bio, edu), w')"
  shows "map_of (files w') ''output/bio_data.json'' = Some (Json_bio bio edu)"
    and "map_of (files w') ''output/bio_data.csv'' = Some (Csv (bio_csv_rows bio edu))"
  using assms
  by (auto simp: fetch_bio_data_def login_and_get_page_def io_Inr Let_def map_of_dict_set
           simp del: do_calls.simps)

text \<open>
  C2, as the claim states it, fails: a successful scrape of the timetable and calendar
  pages that finds no table returns three empty lists and writes no file at all.
\<close>

theorem empty_timetable_scrape_writes_no_file:
  "fst (fetch_timetable_and_calendar (empty_portal never_raises) ''u'' ''p'' world0)
     = Inr ([], [], [])
   \<and> files (snd (fetch_timetable_and_calendar (empty_portal never_raises) ''u'' ''p'' world0))
     = []"
  by (simp add: fetch_timetable_and_calendar_def extract_timetable_and_faculty_def
        extract_academic_calendar_def calendar_records_def with_playwright_def bind_io_def
        call_io_def login_and_get_page_def empty_portal_def world0_def return_io_def
        never_raises_def)

text \<open>
  C2, amended: a successful attendance, library or bio-data scrape, also one with no
  record, leaves a JSON file named after the report that holds the returned data, and a
  CSV file; the header row of the attendance and of the library CSV is the report's list
  of field names, in its order, followed by one row per Record, and the header row of the
  bio-data CSV is Section, Subsection, Field, Value. A successful timetable and calendar
  scrape leaves \<^verbatim>\<open>timetable.json\<close>, \<^verbatim>\<open>faculty_allocation.json\<close> and
  \<^verbatim>\<open>academic_calendar.json\<close> holding the returned lists where a list is not empty; for an
  empty list the file is not written and stays as it was.
\<close>

theorem artifacts_written_on_success:
  "(fst (fetch_attendance env u p w) = Inr data \<longrightarrow>
      map_of (files (snd (fetch_attendance env u p w))) ''output/attendance_data.json''
        = Some (Json_records data)
      \<and> map_of (files (snd (fetch_attendance env u p w))) ''output/attendance_data.csv''
        = Some (Csv (attendance_headers # map (csv_row attendance_headers) data)))
   \<and> (fst (fetch_library_books env u p w) = Inr data \<longrightarrow>
      map_of (files (snd (fetch_library_books env u p w))) ''output/library_books.json''
        = Some (Json_records data)
      \<and> map_of (files (snd (fetch_library_books env u p w))) ''output/library_books.csv''
        = Some (Csv (library_headers # map (csv_row library_headers) data)))
   \<and> (fst (fetch_bio_data env u p w) = Inr (bio, edu) \<longrightarrow>
      map_of (files (snd (fetch_bio_data env u p w))) ''output/bio_data.json''
        = Some (Json_bio bio edu)
      \<and> map_of (files (snd (fetch_bio_data env u p w))) ''output/bio_data.csv''
        = Some (Csv (bio_csv_rows bio edu))
      \<and> hd (bio_csv_rows bio edu) = [''Section'', ''Subsection'', ''Field'', ''Value''])
   \<and> (fst (fetch_timetable_and_calendar env u p w) = Inr (tt, fac, cal) \<longrightarrow>
      map_of (files (snd (fetch_timetable_and_calendar env u p w))) ''output/timetable.json''
        = (if tt \<noteq> [] then Some (Json_records tt)
           else map_of (files w) ''output/timetable.json'')
      \<and> map_of (files (snd (fetch_timetable_and_calendar env u p w)))
           ''output/faculty_allocation.json''
        = (if fac \<noteq> [] then Some (Json_records fac)
           else map_of (files w) ''output/faculty_allocation.json'')
      \<and> map_of (files (snd (fetch_timetable_and_calendar env u p w)))
           ''output/academic_calendar.json''
        = (if cal \<noteq> [] then Some (Json_records cal)
           else map_of (files w) ''output/academic_calendar.json''))"
proof -
  have a: "fst (fetch_attendance env u p w) = Inr data \<longrightarrow>
      map_of (files (snd (fetch_attendance env u p w))) ''output/attendance_data.json''
        = Some (Json_records data)
      \<and> map_of (files (snd (fetch_attendance env u p w))) ''output/attendance_data.csv''
        = Some (Csv (attendance_headers # map (csv_row attendance_headers) data))"
  proof
    assume "fst (fetch_attendance env u p w) = Inr data"
    then have "fetch_attendance env u p w = (Inr data, snd (fetch_attendance env u p w))"
      by (metis prod.collapse)
    from fetch_attendance_files [OF this] show
      "map_of (files (snd (fetch_attendance env u p w))) ''output/attendance_data.json''
        = Some (Json_records data)
      \<and> map_of (files (snd (fetch_attendance env u p w))) ''output/attendance_data.csv''
        = Some (Csv (attendance_headers # map (csv_row attendance_headers) data))"
      by simp
  qed
  have b: "fst (fetch_library_books env u p w) = Inr data \<longrightarrow>
      map_of (files (snd (fetch_library_books env u p w))) ''output/library_books.json''
        = Some (Json_records data)
      \<and> map_of (files (snd (fetch_library_books env u p w))) ''output/library_books.csv''
        = Some (Csv (library_headers # map (csv_row library_headers) data))"
  proof
    assume "fst (fetch_library_books env u p w) = Inr data"
    then have "fetch_library_books env u p w = (Inr data, snd (fetch_library_books env u p w))"
      by (metis prod.collapse)
    from fetch_library_books_files [OF this] show
      "map_of (files (snd (fetch_library_books env u p w))) ''output/library_books.json''
        = Some (Json_records data)
      \<and> map_of (files (snd (fetch_library_books env u p w))) ''output/library_books.csv''
        = Some (Csv (library_headers # map (csv_row library_headers) data))"
      by simp
  qed
  have c: "fst (fetch_bio_data env u p w) = Inr (bio, edu) \<longrightarrow>
      map_of (files (snd (fetch_bio_data env u p w))) ''output/bio_data.json''
        = Some (Json_bio bio edu)
      \<and> map_of (files (snd (fetch_bio_data env u p w))) ''output/bio_data.csv''
        = Some (Csv (bio_csv_rows bio edu))
      \<and> hd (bio_csv_rows bio edu) = [''Section'', ''Subsection'', ''Field'', ''Value'']"
  proof
    assume "fst (fetch_bio_data env u p w) = Inr (bio, edu)"
    then have "fetch_bio_data env u p w = (Inr (bio, edu), snd (fetch_bio_data env u p w))"
      by (metis prod.collapse)
    from fetch_bio_data_files [OF this] show
      "map_of (files (snd (fetch_bio_data env u p w))) ''output/bio_data.json''
        = Some (Json_bio bio edu)
      \<and> map_of (files (snd (fetch_bio_data env u p w))) ''output/bio_data.csv''
        = Some (Csv (bio_csv_rows bio edu))
      \<and> hd (bio_csv_rows bio edu) = [''Section'', ''Subsection'', ''Field'', ''Value'']"
      by (simp add: bio_csv_rows_def)
  qed
  have d: "fst (fetch_timetable_and_calendar env u p w) = Inr (tt, fac, cal) \<longrightarrow>
      map_of (files (snd (fetch_timetable_and_calendar env u p w))) ''output/timetable.json''
        = (if tt \<noteq> [] then Some (Json_records tt)
           else map_of (files w) ''output/timetable.json'')
      \<and> map_of (files (snd (fetch_timetable_and_calendar env u p w)))
           ''output/faculty_allocation.json''
        = (if fac \<noteq> [] then Some (Json_records fac)
           else map_of (files w) ''output/faculty_allocation.json'')
      \<and> map_of (files (snd (fetch_timetable_and_calendar env u p w)))
           ''output/academic_calendar.json''
        = (if cal \<noteq> [] then Some (Json_records cal)
           else map_of (files w) ''output/academic_calendar.json'')"
  proof
    assume "fst (fetch_timetable_and_calendar env u p w) = Inr (tt, fac, cal)"
    then have "fetch_timetable_and_calendar env u p w =
        (Inr (tt, fac, cal), snd (fetch_timetable_and_calendar env u p w))"
      by (metis prod.collapse)
    from fetch_timetable_and_calendar_Inr(2) [OF this] show
      "map_of (files (snd (fetch_timetable_and_calendar env u p w))) ''output/timetable.json''
        = (if tt \<noteq> [] then Some (Json_records tt)
           else map_of (files w) ''output/timetable.json'')
      \<and> map_of (files (snd (fetch_timetable_and_calendar env u p w)))
           ''output/faculty_allocation.json''
        = (if fac \<noteq> [] then Some (Json_records fac)
           else map_of (files w) ''output/faculty_allocation.json'')
      \<and> map_of (files (snd (fetch_timetable_and_calendar env u p w)))
           ''output/academic_calendar.json''
        = (if cal \<noteq> [] then Some (Json_records cal)
           else map_of (files w) ''output/academic_calendar.json'')"
      by simp
  qed
  from a b c d show ?thesis by blast
qed

theorem artifacts_written_on_success_witness:
  "map_of (files (snd (fetch_attendance (empty_portal never_raises) ''u'' ''p'' world0)))
     ''output/attendance_data.json'' = Some (Json_records [])
   \<and> map_of (files (snd (fetch_attendance (empty_portal never_raises) ''u'' ''p'' world0)))
     ''output/attendance_data.csv'' = Some (Csv [attendance_headers])
   \<and> map_of (files (snd (fetch_library_books (empty_portal never_raises) ''u'' ''p'' world0)))
     ''output/library_books.csv'' = Some (Csv [library_headers])
   \<and> map_of (files (snd (fetch_bio_data (empty_portal never_raises) ''u'' ''p'' world0)))
     ''output/bio_data.json'' = Some (Json_bio [] edu_default)
   \<and> map_of (files (snd (fetch_timetable_and_calendar sample_portal ''u'' ''p'' world0)))
     ''output/timetable.json'' =
       Some (Json_records
         [[(''Day'', ''Mon''), (''Period 1'', ''M1''), (''Period 2'', ''P1''),
           (''Period 3'', ''C1''), (''Break'', []), (''Period 4'', ''E1''),
           (''Period 5'', ''M2''), (''Period 6'', ''P2''), (''Period 7'', ''Lab'')]])
   \<and> map_of (files (snd (fetch_timetable_and_calendar sample_portal ''u'' ''p'' world0)))
     ''output/academic_calendar.json'' = None"
proof -
  note defs = with_playwright_def bind_io_def call_io_def login_and_get_page_def
    empty_portal_def world0_def try_pass_def return_io_def write_file_def sample_portal_def
    never_raises_def
  let ?e = "empty_portal never_raises"
  have run: "extract_tables [both_table] ([], []) =
     ([[(''Day'', ''Mon''), (''Period 1'', ''M1''), (''Period 2'', ''P1''),
        (''Period 3'', ''C1''), (''Break'', []), (''Period 4'', ''E1''),
        (''Period 5'', ''M2''), (''Period 6'', ''P2''), (''Period 7'', ''Lab'')]],
      [[(''Subject Code'', ''Mon''), (''Subject'', ''M1''), (''Faculty Name'', ''P1''),
        (''Initials'', ''C1'')]])"
    by code_simp
  have h1: "fst (fetch_attendance ?e ''u'' ''p'' world0) = Inr []"
    by (simp add: fetch_attendance_def defs)
  have h2: "fst (fetch_library_books ?e ''u'' ''p'' world0) = Inr []"
    by (simp add: fetch_library_books_def defs)
  have h3: "fst (fetch_bio_data ?e ''u'' ''p'' world0) = Inr ([], edu_default)"
    by (simp add: fetch_bio_data_def defs education_of_def)
  have h4: "fst (fetch_timetable_and_calendar sample_portal ''u'' ''p'' world0) =
     Inr ([[(''Day'', ''Mon''), (''Period 1'', ''M1''), (''Period 2'', ''P1''),
            (''Period 3'', ''C1''), (''Break'', []), (''Period 4'', ''E1''),
            (''Period 5'', ''M2''), (''Period 6'', ''P2''), (''Period 7'', ''Lab'')]],
          [[(''Subject Code'', ''Mon''), (''Subject'', ''M1''), (''Faculty Name'', ''P1''),
            (''Initials'', ''C1'')]], [])"
    by (simp add: fetch_timetable_and_calendar_def extract_timetable_and_faculty_def
          extract_academic_calendar_def calendar_records_def defs run
          del: extract_tables.simps)
  have w0: "map_of (files world0) ''output/academic_calendar.json'' = None"
    by (simp add: world0_def)
  from artifacts_written_on_success [of ?e "''u''" "''p''" world0 "[]" "[]" edu_default]
       h1 h2 h3
  have c1: "map_of (files (snd (fetch_attendance ?e ''u'' ''p'' world0)))
       ''output/attendance_data.json'' = Some (Json_records [])"
    and c2: "map_of (files (snd (fetch_attendance ?e ''u'' ''p'' world0)))
       ''output/attendance_data.csv'' = Some (Csv [attendance_headers])"
    and c3: "map_of (files (snd (fetch_library_books ?e ''u'' ''p'' world0)))
       ''output/library_books.csv'' = Some (Csv [library_headers])"
    and c4: "map_of (files (snd (fetch_bio_data ?e ''u'' ''p'' world0)))
       ''output/bio_data.json'' = Some (Json_bio [] edu_default)"
    by simp_all
  from artifacts_written_on_success
         [of sample_portal "''u''" "''p''" world0 "[]" "[]" edu_default
             "[[(''Day'', ''Mon''), (''Period 1'', ''M1''), (''Period 2'', ''P1''),
                (''Period 3'', ''C1''), (''Break'', []), (''Period 4'', ''E1''),
                (''Period 5'', ''M2''), (''Period 6'', ''P2''), (''Period 7'', ''Lab'')]]"
             "[[(''Subject Code'', ''Mon''), (''Subject'', ''M1''), (''Faculty Name'', ''P1''),
                (''Initials'', ''C1'')]]" "[]"]
       h4 w0
  have c5: "map_of (files (snd (fetch_timetable_and_calendar sample_portal ''u'' ''p'' world0)))
       ''output/timetable.json'' =
       Some (Json_records
         [[(''Day'', ''Mon''), (''Period 1'', ''M1''), (''Period 2'', ''P1''),
           (''Period 3'', ''C1''), (''Break'', []), (''Period 4'', ''E1''),
           (''Period 5'', ''M2''), (''Period 6'', ''P2''), (''Period 7'', ''Lab'')]])"
    and c6: "map_of (files (snd (fetch_timetable_and_calendar sample_portal ''u'' ''p'' world0)))
       ''output/academic_calendar.json'' = None"
    by simp_all
  from c1 c2 c3 c4 c5 c6 show ?thesis by blast
qed

end
